theory Spec2Isabelle
  imports Complex_Main
begin

section \<open>Build history resolution and artifact acquisition (src/builds.ts)\<close>

text \<open>
  A shallow embedding of the class \<open>Builds\<close> of \<open>src/builds.ts\<close>. Every method that
  touches the network, the file system or the log is a function from a state to a result
  and a new state; a thrown \<open>Error\<close> is the left injection of the result.
\<close>

subsection \<open>Data model\<close>

text \<open>
  The enums are imported from \<open>constants.js\<close>. The members below are the ones
  \<open>builds.ts\<close> names; \<open>OtherFlavor\<close> stands for any further flavor (the docker CLI
  flavors that \<open>isDockerCliFlavor\<close> recognises are not named in \<open>builds.ts\<close>).
  The comparisons \<open>quality === 'insider'\<close> and \<open>quality === 'stable'\<close> of the source
  are read as comparisons with the members \<open>Insider\<close> and \<open>Stable\<close>.
\<close>

datatype Platform = MacOSX64 | MacOSArm | LinuxX64 | LinuxArm | WindowsX64 | WindowsArm

datatype Arch = X64 | Arm64

datatype Runtime = WebLocal | WebRemote | DesktopLocal

datatype Quality = Insider | Stable | VSCodiumInsider

datatype Flavor =
    Default | Cli | DarwinUniversal
  | WindowsUserInstaller | WindowsSystemInstaller
  | LinuxDeb | LinuxRPM | LinuxSnap
  | OtherFlavor string

text \<open>
  A JavaScript number: a double, given by the real number it stands for, an infinity
  or \<open>NaN\<close>. Both zeros are \<open>Finite 0\<close>; they compare equal and both are falsy.
\<close>

datatype JSNumber = NaN | NegInfinity | Finite real | PosInfinity

text \<open>
  \<open>date?: string | number\<close>: a timestamp or an ISO string. A number of a JSON file is
  any finite double, or an infinity when the literal is out of range.
\<close>

datatype BuildDate = DateNumber JSNumber | DateString string

text \<open>
  \<open>assets?: any\<close>: the VSCodium asset URLs, a JSON object from platform key to URL,
  kept as an association list.
\<close>

type_synonym Assets = "(string \<times> string) list"

record IBuild =
  runtime :: Runtime
  quality :: Quality
  flavor :: Flavor
  platform :: "Platform option"
  arch :: "Arch option"
  commit :: string
  date :: "BuildDate option"
  version :: "string option"
  assets :: "Assets option"

text \<open>
  \<open>IBuildMetadata\<close>; its field \<open>version\<close> (a commit) is named \<open>metaVersion\<close> here,
  apart from the field \<open>version\<close> of \<open>IBuild\<close>.
\<close>

record IBuildMetadata =
  url :: string
  metaVersion :: string
  productVersion :: string
  sha256hash :: string

text \<open>One element of a history file, as \<open>fetchAllBuilds\<close> reads it.\<close>

record HistoryEntry =
  h_commit :: string
  h_date :: "BuildDate option"
  h_version :: "string option"
  h_assets :: "Assets option"

text \<open>A JSON value, for \<open>product.json\<close>.\<close>

datatype Json =
    JNull | JBool bool | JNumber int | JString string
  | JArray "Json list" | JObject "(string \<times> Json) list"

subsection \<open>Errors, log lines and network calls\<close>

text \<open>
  Each \<open>throw new Error(...)\<close> of the source is one constructor, carrying the values
  its message interpolates (\<open>None\<close> where the message prints \<open>undefined\<close>).
  \<open>FetchError\<close>, \<open>FileError\<close> and \<open>UnzipError\<close> are the failures of the helpers of
  \<open>fetch.js\<close> and \<open>files.js\<close>; \<open>RangeError\<close>, \<open>TypeError\<close> and \<open>SyntaxError\<close>
  are the runtime's.
\<close>

datatype Error =
    GoodCommitNotFound string
  | BadCommitNotFound string
  | BadNotNewerThanGood "string option" "string option"
  | CouldNotResolveDate string
  | ChecksumMismatch string string
  | MissingAssetsMap "string option" string
  | NoVSCodiumAsset Platform "string option"
  | FailedToUnzipVSCodium string
  | FetchError string
  | FileError string
  | UnzipError string
  | RangeError
  | TypeError
  | SyntaxError

datatype LogLine =
    FailedToLoadHistory string string
  | LoadedFromLocalHistory nat
  | FetchingAllBuilds string
  | ExcludedCommits nat
  | ResolvedDate string string int
  | UsingCachedBuild string
  | DeletingAndRetrying string
  | DownloadingBuild string
  | ChecksumMatches
  | Unzipping string string
  | UsingCachedVSCodium string
  | DownloadingVSCodium string
  | ExtractingVSCodium string
  | PatchingProductJson string

datatype NetCall = JsonGet string | FileGet string string

datatype Spawned = Spawn string "string list"

text \<open>
  The state the methods act on: the files on disk (path and content), the network calls
  made so far, the processes spawned so far and the lines logged so far.
\<close>

type_synonym Files = "(string \<times> string) list"

record State =
  files :: Files
  net :: "NetCall list"
  spawned :: "Spawned list"
  logged :: "LogLine list"

record SpawnResult =
  spawnError :: "string option"
  status :: int
  stderr :: "string option"

text \<open>
  What \<open>builds.ts\<close> imports and does not define. \<open>hostPlatform\<close> and \<open>hostArch\<close> are
  the constants \<open>platform\<close> and \<open>arch\<close> of \<open>constants.js\<close>; \<open>ArchValue\<close> and
  \<open>QualityValue\<close> give the string values of the two string enums, which the template
  literals print; \<open>localDate y m d\<close> is \<open>new Date(y, m, d).getTime()\<close> and
  \<open>parseDate s\<close> is \<open>new Date(s).getTime()\<close>, \<open>None\<close> for \<open>NaN\<close>; \<open>readHistory\<close> is
  \<open>JSON.parse(readFileSync(path, 'utf8'))\<close> followed by \<open>slice()\<close>, with \<open>Inl\<close> the
  text of the exception when one of them throws.
  The network answers by the number of calls made before: the same URL may fail once
  and succeed later.
\<close>

record Env =
  hostPlatform :: Platform
  hostArch :: Arch
  ArchValue :: "Arch \<Rightarrow> string"
  QualityValue :: "Quality \<Rightarrow> string"
  isDockerCliFlavor :: "Flavor \<Rightarrow> bool"
  getBuildPath :: "string \<Rightarrow> Quality \<Rightarrow> Flavor \<Rightarrow> string"
  cwd :: string
  localDate :: "int \<Rightarrow> int \<Rightarrow> int \<Rightarrow> int"
  parseDate :: "string \<Rightarrow> int option"
  readHistory :: "string \<Rightarrow> string + HistoryEntry list"
  sha256 :: "string \<Rightarrow> string"
  commitsAt :: "nat \<Rightarrow> string \<Rightarrow> string + string list"
  metadataAt :: "nat \<Rightarrow> string \<Rightarrow> string + IBuildMetadata"
  downloadAt :: "nat \<Rightarrow> string \<Rightarrow> string + string"
  archiveEntries :: "string \<Rightarrow> string + Files"
  spawnSync :: "string \<Rightarrow> string list \<Rightarrow> Files \<Rightarrow> SpawnResult \<times> Files"
  JSON_parse :: "string \<Rightarrow> Json option"
  JSON_stringify :: "Json \<Rightarrow> string"

subsection \<open>Numbers\<close>

text \<open>\<open>Math.abs(x)\<close>\<close>

fun jsAbs :: "JSNumber \<Rightarrow> JSNumber" where
  "jsAbs NaN = NaN"
| "jsAbs NegInfinity = PosInfinity"
| "jsAbs PosInfinity = PosInfinity"
| "jsAbs (Finite x) = Finite \<bar>x\<bar>"

text \<open>\<open>x < y\<close>: false when one side is \<open>NaN\<close>.\<close>

fun jsLess :: "JSNumber \<Rightarrow> JSNumber \<Rightarrow> bool" where
  "jsLess NaN y = False"
| "jsLess x NaN = False"
| "jsLess (Finite x) (Finite y) = (x < y)"
| "jsLess NegInfinity NegInfinity = False"
| "jsLess NegInfinity y = True"
| "jsLess x NegInfinity = False"
| "jsLess PosInfinity y = False"
| "jsLess x PosInfinity = True"

text \<open>The integer nearest to \<open>q\<close>, the even one of two that are equally near.\<close>

definition roundHalfEven :: "real \<Rightarrow> int" where
  "roundHalfEven q =
     (let f = \<lfloor>q\<rfloor>
      in if q - of_int f < 1 / 2 then f
         else if 1 / 2 < q - of_int f then f + 1
         else if even f then f else f + 1)"

text \<open>
  The exponent of the binade of \<open>a > 0\<close>: the largest \<open>e\<close> from \<open>-1022\<close> to \<open>k - 1022\<close>
  with \<open>2 powi e \<le> a\<close>, and \<open>-1022\<close> for the subnormal numbers.
\<close>

primrec binadeFrom :: "nat \<Rightarrow> real \<Rightarrow> int" where
  "binadeFrom 0 a = - 1022"
| "binadeFrom (Suc k) a =
     (if 2 powi (int (Suc k) - 1022) \<le> a then int (Suc k) - 1022 else binadeFrom k a)"

text \<open>
  The double nearest to the real number \<open>x\<close> (53 bits of precision, exponents from
  \<open>-1022\<close> to \<open>1023\<close>, ties to the even significand), an infinity when the rounded
  magnitude reaches \<open>2 ^ 1024\<close>: the rounding of every arithmetic operation on doubles.
\<close>

definition doubleOf :: "real \<Rightarrow> JSNumber" where
  "doubleOf x =
     (if x = 0 then Finite 0
      else
        (let ulp = 2 powi (binadeFrom 2046 \<bar>x\<bar> - 52);
             r = of_int (roundHalfEven (\<bar>x\<bar> / ulp)) * ulp
         in if 2 ^ 1024 \<le> r then (if 0 < x then PosInfinity else NegInfinity)
            else Finite (if 0 < x then r else - r)))"

text \<open>\<open>x - y\<close> on doubles.\<close>

fun jsMinus :: "JSNumber \<Rightarrow> JSNumber \<Rightarrow> JSNumber" where
  "jsMinus NaN y = NaN"
| "jsMinus x NaN = NaN"
| "jsMinus (Finite x) (Finite y) = doubleOf (x - y)"
| "jsMinus PosInfinity PosInfinity = NaN"
| "jsMinus NegInfinity NegInfinity = NaN"
| "jsMinus PosInfinity y = PosInfinity"
| "jsMinus NegInfinity y = NegInfinity"
| "jsMinus x PosInfinity = NegInfinity"
| "jsMinus x NegInfinity = PosInfinity"

text \<open>\<open>Number.MAX_VALUE\<close>\<close>

definition MAX_VALUE :: real where
  "MAX_VALUE = 2 ^ 1024 - 2 ^ 971"

text \<open>The number of a time value: a whole number of milliseconds, or \<open>NaN\<close>.\<close>

definition timeNumber :: "int option \<Rightarrow> JSNumber" where
  "timeNumber t = (case t of Some ms \<Rightarrow> Finite (of_int ms) | None \<Rightarrow> NaN)"

subsection \<open>Strings, arrays and paths\<close>

text \<open>\<open>s.split(sep)\<close> for a separator of one character.\<close>

fun splitOn :: "char \<Rightarrow> string \<Rightarrow> string list" where
  "splitOn sep [] = [[]]"
| "splitOn sep (c # cs) =
     (if c = sep then [] # splitOn sep cs
      else (case splitOn sep cs of [] \<Rightarrow> [[c]] | p # ps \<Rightarrow> (c # p) # ps))"

definition isDigit :: "char \<Rightarrow> bool" where
  "isDigit ch = (ch \<in> set ''0123456789'')"

definition digitValue :: "char \<Rightarrow> int" where
  "digitValue ch = int (of_char ch) - 48"

text \<open>
  \<open>Number(s)\<close> on the strings \<open>fetchBuilds\<close> passes on: a non-empty string of
  decimal digits is its value; \<open>None\<close> is \<open>NaN\<close>. (Other strings that JavaScript
  reads as numbers do not pass the date pattern and are not modelled.)
\<close>

definition Number :: "string \<Rightarrow> int option" where
  "Number s =
     (if s \<noteq> [] \<and> list_all isDigit s
      then Some (foldl (\<lambda>n ch. 10 * n + digitValue ch) 0 s) else None)"

text \<open>\<open>/^\\d{1,2}-\\d{1,2}-\\d{4}$/.test(s)\<close>\<close>

definition dateRegex_test :: "string \<Rightarrow> bool" where
  "dateRegex_test s =
     (case splitOn CHR ''-'' s of
        [d, m, y] \<Rightarrow>
          list_all isDigit d \<and> (length d = 1 \<or> length d = 2) \<and>
          list_all isDigit m \<and> (length m = 1 \<or> length m = 2) \<and>
          list_all isDigit y \<and> length y = 4
      | _ \<Rightarrow> False)"

text \<open>\<open>xs[i]\<close>, \<open>None\<close> for \<open>undefined\<close>.\<close>

definition element :: "'a list \<Rightarrow> nat \<Rightarrow> 'a option" where
  "element xs i = (if i < length xs then Some (xs ! i) else None)"

text \<open>\<open>xs.slice(start, end)\<close>, with JavaScript's reading of negative and large indices.\<close>

definition slice :: "'a list \<Rightarrow> int \<Rightarrow> int \<Rightarrow> 'a list" where
  "slice xs start end' =
     (let len = int (length xs);
          k = (if start < 0 then max (len + start) 0 else min start len);
          final = (if end' < 0 then max (len + end') 0 else min end' len)
      in take (nat (final - k)) (drop (nat k) xs))"

text \<open>The largest time value of a \<open>Date\<close>; \<open>toISOString\<close> throws beyond it.\<close>

definition maxTimeValue :: real where
  "maxTimeValue = 8640000000000000"

text \<open>
  \<open>join\<close> of \<open>node:path\<close> on two segments and \<open>dirname\<close>, with \<open>/\<close> as the
  separator and no normalisation.
\<close>

definition join :: "string \<Rightarrow> string \<Rightarrow> string" where
  "join a b = a @ ''/'' @ b"

definition dirname :: "string \<Rightarrow> string" where
  "dirname p =
     (case rev (splitOn CHR ''/'' p) of
        [] \<Rightarrow> ''.''
      | [_] \<Rightarrow> ''.''
      | _ # d # ds \<Rightarrow>
          (let dir = foldl (\<lambda>acc s. acc @ ''/'' @ s) (last (d # ds)) (tl (rev (d # ds)))
           in if dir = [] then ''/'' else dir))"

fun isPrefixOf :: "string \<Rightarrow> string \<Rightarrow> bool" where
  "isPrefixOf [] ys = True"
| "isPrefixOf (x # xs) [] = False"
| "isPrefixOf (x # xs) (y # ys) = (x = y \<and> isPrefixOf xs ys)"

fun contains :: "string \<Rightarrow> string \<Rightarrow> bool" where
  "contains [] sub = (sub = [])"
| "contains (c # cs) sub = (isPrefixOf sub (c # cs) \<or> contains cs sub)"

text \<open>\<open>s.lastIndexOf(sub)\<close>, \<open>None\<close> for \<open>-1\<close>.\<close>

fun lastIndexOf :: "string \<Rightarrow> string \<Rightarrow> nat option" where
  "lastIndexOf [] sub = (if sub = [] then Some 0 else None)"
| "lastIndexOf (c # cs) sub =
     (case lastIndexOf cs sub of
        Some i \<Rightarrow> Some (Suc i)
      | None \<Rightarrow> if isPrefixOf sub (c # cs) then Some 0 else None)"

text \<open>\<open>a\<close> is the path \<open>d\<close> or lies beneath the directory \<open>d\<close>.\<close>

definition beneath :: "string \<Rightarrow> string \<Rightarrow> bool" where
  "beneath d a = (a = d \<or> isPrefixOf (d @ ''/'') a)"

subsection \<open>The helpers of fetch.js and files.js\<close>

text \<open>
  Modelled from the spec: \<open>jsonGet\<close> and \<open>fileGet\<close> of \<open>fetch.js\<close> and \<open>exists\<close>,
  \<open>computeSHA256\<close> and \<open>unzip\<close> of \<open>files.js\<close> are not in the source given; the spec
  treats them as library calls (HTTP get, JSON get, SHA-256, zip extraction). Each
  network call is recorded in \<open>net\<close>; \<open>fileGet\<close> writes what it downloads to the path;
  a path exists when it or something beneath it is on disk; \<open>rmSync\<close> with
  \<open>recursive\<close> removes a path and all beneath it.
\<close>

definition jsonGetCommits :: "Env \<Rightarrow> string \<Rightarrow> State \<Rightarrow> (Error + string list) \<times> State" where
  "jsonGetCommits env u st =
     (case commitsAt env (length (net st)) u of
        Inl e \<Rightarrow> (Inl (FetchError e), st\<lparr>net := net st @ [JsonGet u]\<rparr>)
      | Inr cs \<Rightarrow> (Inr cs, st\<lparr>net := net st @ [JsonGet u]\<rparr>))"

definition jsonGetMetadata :: "Env \<Rightarrow> string \<Rightarrow> State \<Rightarrow> (Error + IBuildMetadata) \<times> State" where
  "jsonGetMetadata env u st =
     (case metadataAt env (length (net st)) u of
        Inl e \<Rightarrow> (Inl (FetchError e), st\<lparr>net := net st @ [JsonGet u]\<rparr>)
      | Inr m \<Rightarrow> (Inr m, st\<lparr>net := net st @ [JsonGet u]\<rparr>))"

definition writeFile :: "string \<Rightarrow> string \<Rightarrow> Files \<Rightarrow> Files" where
  "writeFile p content fs = (p, content) # filter (\<lambda>(q, _). q \<noteq> p) fs"

definition fileGet :: "Env \<Rightarrow> string \<Rightarrow> string \<Rightarrow> State \<Rightarrow> (Error + unit) \<times> State" where
  "fileGet env u p st =
     (case downloadAt env (length (net st)) u of
        Inl e \<Rightarrow> (Inl (FetchError e), st\<lparr>net := net st @ [FileGet u p]\<rparr>)
      | Inr content \<Rightarrow>
          (Inr (), st\<lparr>net := net st @ [FileGet u p], files := writeFile p content (files st)\<rparr>))"

definition exists :: "string \<Rightarrow> State \<Rightarrow> bool" where
  "exists p st = list_ex (\<lambda>(q, _). beneath p q) (files st)"

definition rmSync :: "string \<Rightarrow> State \<Rightarrow> State" where
  "rmSync p st = st\<lparr>files := filter (\<lambda>(q, _). \<not> beneath p q) (files st)\<rparr>"

definition computeSHA256 :: "Env \<Rightarrow> string \<Rightarrow> State \<Rightarrow> Error + string" where
  "computeSHA256 env p st =
     (case map_of (files st) p of
        None \<Rightarrow> Inl (FileError p)
      | Some content \<Rightarrow> Inr (sha256 env content))"

definition unzip :: "Env \<Rightarrow> string \<Rightarrow> string \<Rightarrow> State \<Rightarrow> (Error + unit) \<times> State" where
  "unzip env p destination st =
     (case map_of (files st) p of
        None \<Rightarrow> (Inl (FileError p), st)
      | Some content \<Rightarrow>
          (case archiveEntries env content of
             Inl e \<Rightarrow> (Inl (UnzipError e), st)
           | Inr entries \<Rightarrow>
               (Inr (),
                st\<lparr>files := foldr (\<lambda>(q, c). writeFile (join destination q) c) entries (files st)\<rparr>)))"

subsection \<open>Platform naming: the API name\<close>

definition effectivePlatform :: "Env \<Rightarrow> Platform option \<Rightarrow> Platform" where
  "effectivePlatform env buildPlatform =
     (case buildPlatform of Some p \<Rightarrow> p | None \<Rightarrow> hostPlatform env)"

definition effectiveArch :: "Env \<Rightarrow> Arch option \<Rightarrow> Arch" where
  "effectiveArch env buildArch =
     (case buildArch of Some a \<Rightarrow> a | None \<Rightarrow> hostArch env)"

definition getBuildApiName ::
  "Env \<Rightarrow> Runtime \<Rightarrow> Flavor \<Rightarrow> Platform option \<Rightarrow> Arch option \<Rightarrow> string" where
  "getBuildApiName env runtime' flavor' buildPlatform buildArch =
     (let ePlatform = effectivePlatform env buildPlatform;
          eArch = ArchValue env (effectiveArch env buildArch)
      in if runtime' = WebLocal \<or> runtime' = WebRemote then
           (case ePlatform of
              MacOSX64 \<Rightarrow> ''server-darwin-web''
            | MacOSArm \<Rightarrow> ''server-darwin-web''
            | LinuxX64 \<Rightarrow> ''server-linux-'' @ eArch @ ''-web''
            | LinuxArm \<Rightarrow> ''server-linux-'' @ eArch @ ''-web''
            | WindowsX64 \<Rightarrow> ''server-win32-'' @ eArch @ ''-web''
            | WindowsArm \<Rightarrow> ''server-win32-'' @ eArch @ ''-web'')
         else
           (case ePlatform of
              MacOSX64 \<Rightarrow>
                if flavor' = DarwinUniversal then ''darwin-universal'' else ''darwin''
            | MacOSArm \<Rightarrow>
                if flavor' = DarwinUniversal then ''darwin-universal''
                else ''darwin-'' @ ArchValue env Arm64
            | LinuxX64 \<Rightarrow> ''linux-'' @ eArch
            | LinuxArm \<Rightarrow> ''linux-'' @ eArch
            | WindowsX64 \<Rightarrow> ''win32-'' @ eArch
            | WindowsArm \<Rightarrow> ''win32-'' @ eArch))"

subsection \<open>History source\<close>

definition historyFilename :: "Quality \<Rightarrow> string" where
  "historyFilename quality' =
     (if quality' = VSCodiumInsider then ''vscodium_insider_history.json''
      else if quality' = Insider then ''vscode_insider_history.json''
      else ''vscode_stable_history.json'')"

definition loadHistory :: "Env \<Rightarrow> Quality \<Rightarrow> State \<Rightarrow> HistoryEntry list \<times> State" where
  "loadHistory env quality' st =
     (let path = join (cwd env) (historyFilename quality')
      in case readHistory env path of
           Inr history \<Rightarrow> (rev history, st)
         | Inl e \<Rightarrow> ([], st\<lparr>logged := logged st @ [FailedToLoadHistory path e]\<rparr>))"

definition historyBuild :: "Runtime \<Rightarrow> Quality \<Rightarrow> Flavor \<Rightarrow> HistoryEntry \<Rightarrow> IBuild" where
  "historyBuild runtime' quality' flavor' h =
     \<lparr>runtime = runtime', quality = quality', flavor = flavor', platform = None, arch = None,
      commit = h_commit h, date = h_date h, version = h_version h, assets = h_assets h\<rparr>"

definition commitBuild :: "Runtime \<Rightarrow> Quality \<Rightarrow> Flavor \<Rightarrow> string \<Rightarrow> IBuild" where
  "commitBuild runtime' quality' flavor' c =
     \<lparr>runtime = runtime', quality = quality', flavor = flavor', platform = None, arch = None,
      commit = c, date = None, version = None, assets = None\<rparr>"

definition commitsUrl :: "Env \<Rightarrow> Runtime \<Rightarrow> Quality \<Rightarrow> Flavor \<Rightarrow> bool \<Rightarrow> string" where
  "commitsUrl env runtime' quality' flavor' releasedOnly =
     ''https://update.code.visualstudio.com/api/commits/'' @ QualityValue env quality' @ ''/''
       @ getBuildApiName env runtime' flavor' None None
       @ ''?released='' @ (if releasedOnly then ''true'' else ''false'')"

definition fetchAllBuilds ::
  "Env \<Rightarrow> Runtime \<Rightarrow> Quality \<Rightarrow> Flavor \<Rightarrow> bool \<Rightarrow> bool \<Rightarrow> State
     \<Rightarrow> (Error + IBuild list) \<times> State" where
  "fetchAllBuilds env runtime' quality' flavor' releasedOnly useDiscovery st =
     (let (history, st1) = (if \<not> useDiscovery then loadHistory env quality' st else ([], st))
      in if \<not> useDiscovery \<and> length history > 0 then
           (Inr (map (historyBuild runtime' quality' flavor') history),
            st1\<lparr>logged := logged st1 @ [LoadedFromLocalHistory (length history)]\<rparr>)
         else
           (let u = commitsUrl env runtime' quality' flavor' releasedOnly;
                st2 = st1\<lparr>logged := logged st1 @ [FetchingAllBuilds u]\<rparr>
            in case jsonGetCommits env u st2 of
                 (Inl e, st3) \<Rightarrow> (Inl e, st3)
               | (Inr commits, st3) \<Rightarrow>
                   (Inr (map (commitBuild runtime' quality' flavor') commits), st3)))"

subsection \<open>Reference resolver\<close>

text \<open>
  \<open>!build.date\<close> is false: the date is there and is neither \<open>0\<close>, \<open>NaN\<close> nor
  \<open>''\<close>.
\<close>

definition truthyDate :: "BuildDate option \<Rightarrow> bool" where
  "truthyDate d =
     (case d of
        None \<Rightarrow> False
      | Some (DateNumber n) \<Rightarrow> n \<noteq> Finite 0 \<and> n \<noteq> NaN
      | Some (DateString s) \<Rightarrow> s \<noteq> [])"

text \<open>Lines 147 to 152; the loop does not come here without a date.\<close>

definition buildTime :: "Env \<Rightarrow> BuildDate option \<Rightarrow> JSNumber" where
  "buildTime env d =
     (case d of
        None \<Rightarrow> NaN
      | Some (DateNumber n) \<Rightarrow> n
      | Some (DateString s) \<Rightarrow> timeNumber (parseDate env s))"

text \<open>\<open>Math.abs(buildTime - targetTime)\<close>\<close>

definition timeDiff :: "Env \<Rightarrow> JSNumber \<Rightarrow> IBuild \<Rightarrow> JSNumber" where
  "timeDiff env targetTime build = jsAbs (jsMinus (buildTime env (date build)) targetTime)"

text \<open>One round of the loop over the builds; the pair is \<open>(bestBuild, minDiff)\<close>.\<close>

definition considerBuild ::
  "Env \<Rightarrow> JSNumber \<Rightarrow> IBuild option \<times> JSNumber \<Rightarrow> IBuild \<Rightarrow> IBuild option \<times> JSNumber" where
  "considerBuild env targetTime acc build =
     (if \<not> truthyDate (date build) then acc
      else if jsLess (timeDiff env targetTime build) (snd acc)
           then (Some build, timeDiff env targetTime build)
           else acc)"

definition targetTimeOf :: "Env \<Rightarrow> string \<Rightarrow> JSNumber" where
  "targetTimeOf env dateStr =
     (let parts = map Number (splitOn CHR ''-'' dateStr);
          day = Option.bind (element parts 0) id;
          month = Option.bind (element parts 1) id;
          year = Option.bind (element parts 2) id
      in case (year, month, day) of
           (Some y, Some m, Some d) \<Rightarrow> Finite (of_int (localDate env y (m - 1) d))
         | _ \<Rightarrow> NaN)"

text \<open>
  The time value of \<open>new Date(bestBuild.date)\<close> in the log line: a number is cut to a
  whole number when it is in the range of \<open>Date\<close>; \<open>None\<close> is an invalid date, on which
  \<open>toISOString\<close> throws a \<open>RangeError\<close>.
\<close>

definition isoTime :: "Env \<Rightarrow> BuildDate option \<Rightarrow> int option" where
  "isoTime env d =
     (case d of
        None \<Rightarrow> None
      | Some (DateNumber (Finite n)) \<Rightarrow>
          if \<bar>n\<bar> \<le> maxTimeValue then Some (if 0 \<le> n then \<lfloor>n\<rfloor> else \<lceil>n\<rceil>) else None
      | Some (DateNumber _) \<Rightarrow> None
      | Some (DateString s) \<Rightarrow> parseDate env s)"

definition versionOrCommit :: "IBuild \<Rightarrow> string" where
  "versionOrCommit build =
     (case version build of
        Some v \<Rightarrow> if v \<noteq> [] then v else commit build
      | None \<Rightarrow> commit build)"

definition resolveDateToBuild ::
  "Env \<Rightarrow> string \<Rightarrow> IBuild list \<Rightarrow> State \<Rightarrow> (Error + string) \<times> State" where
  "resolveDateToBuild env dateStr builds st =
     (let targetTime = targetTimeOf env dateStr;
          (bestBuild, minDiff) =
            foldl (considerBuild env targetTime) (None, Finite MAX_VALUE) builds
      in case bestBuild of
           Some best \<Rightarrow>
             (case isoTime env (date best) of
                None \<Rightarrow> (Inl RangeError, st)
              | Some t \<Rightarrow>
                  (Inr (commit best),
                   st\<lparr>logged := logged st @ [ResolvedDate dateStr (versionOrCommit best) t]\<rparr>))
         | None \<Rightarrow> (Inl (CouldNotResolveDate dateStr), st))"

fun indexOf :: "string \<Rightarrow> IBuild list \<Rightarrow> nat option" where
  "indexOf c [] = None"
| "indexOf c (build # builds) =
     (if commit build = c then Some 0 else map_option Suc (indexOf c builds))"

subsection \<open>Range builder\<close>

text \<open>Lines 86 to 92: a reference of the date shape is replaced by the commit it resolves to.\<close>

definition resolveRef ::
  "Env \<Rightarrow> string option \<Rightarrow> IBuild list \<Rightarrow> State \<Rightarrow> (Error + string option) \<times> State" where
  "resolveRef env ref allBuilds st =
     (case ref of
        None \<Rightarrow> (Inr None, st)
      | Some r \<Rightarrow>
          if dateRegex_test r then
            (case resolveDateToBuild env r allBuilds st of
               (Inl e, st') \<Rightarrow> (Inl e, st')
             | (Inr c, st') \<Rightarrow> (Inr (Some c), st'))
          else (Inr (Some r), st))"

text \<open>Lines 94 and 97 to 103.\<close>

definition goodCommitIndex :: "IBuild list \<Rightarrow> string option \<Rightarrow> Error + int" where
  "goodCommitIndex allBuilds goodCommit =
     (case goodCommit of
        None \<Rightarrow> Inr (int (length allBuilds) - 1)
      | Some g \<Rightarrow>
          (case indexOf g allBuilds of
             None \<Rightarrow> Inl (GoodCommitNotFound g)
           | Some i \<Rightarrow> Inr (int i)))"

text \<open>Lines 95 and 105 to 111.\<close>

definition badCommitIndex :: "IBuild list \<Rightarrow> string option \<Rightarrow> Error + int" where
  "badCommitIndex allBuilds badCommit =
     (case badCommit of
        None \<Rightarrow> Inr 0
      | Some b \<Rightarrow>
          (case indexOf b allBuilds of
             None \<Rightarrow> Inl (BadCommitNotFound b)
           | Some i \<Rightarrow> Inr (int i)))"

text \<open>Lines 94 to 118.\<close>

definition buildsInRange ::
  "IBuild list \<Rightarrow> string option \<Rightarrow> string option \<Rightarrow> Error + IBuild list" where
  "buildsInRange allBuilds goodCommit badCommit =
     (case goodCommitIndex allBuilds goodCommit of
        Inl e \<Rightarrow> Inl e
      | Inr goodIndex \<Rightarrow>
          (case badCommitIndex allBuilds badCommit of
             Inl e \<Rightarrow> Inl e
           | Inr badIndex \<Rightarrow>
               if badIndex \<ge> goodIndex then Inl (BadNotNewerThanGood badCommit goodCommit)
               else Inr (slice allBuilds badIndex (goodIndex + 1))))"

text \<open>Lines 120 to 130; \<open>None\<close> is an \<open>excludeCommits\<close> that was not passed.\<close>

definition excludeBuilds ::
  "string list option \<Rightarrow> IBuild list \<Rightarrow> State \<Rightarrow> IBuild list \<times> State" where
  "excludeBuilds excludeCommits ranged st =
     (case excludeCommits of
        None \<Rightarrow> (ranged, st)
      | Some ex \<Rightarrow>
          if length ex > 0 then
            (let originalLength = length ranged;
                 kept = filter (\<lambda>build. commit build \<notin> set ex) ranged
             in if length kept \<noteq> originalLength
                then (kept, st\<lparr>logged := logged st @ [ExcludedCommits (originalLength - length kept)]\<rparr>)
                else (kept, st))
          else (ranged, st))"

text \<open>
  \<open>fetchBuilds\<close>; \<open>releasedOnly\<close> is optional and \<open>fetchAllBuilds\<close> reads a missing one
  as \<open>false\<close>.
\<close>

definition fetchBuilds ::
  "Env \<Rightarrow> Runtime \<times> Quality \<times> Flavor \<Rightarrow> string option \<Rightarrow> string option \<Rightarrow> bool option
     \<Rightarrow> string list option \<Rightarrow> bool \<Rightarrow> State \<Rightarrow> (Error + IBuild list) \<times> State" where
  "fetchBuilds env kind goodCommit badCommit releasedOnly excludeCommits useDiscovery st =
     (case kind of (runtime', quality', flavor') \<Rightarrow>
        (case fetchAllBuilds env runtime' quality' flavor'
                (case releasedOnly of None \<Rightarrow> False | Some r \<Rightarrow> r) useDiscovery st of
           (Inl e, st1) \<Rightarrow> (Inl e, st1)
         | (Inr allBuilds, st1) \<Rightarrow>
             (case resolveRef env goodCommit allBuilds st1 of
                (Inl e, st2) \<Rightarrow> (Inl e, st2)
              | (Inr goodCommit', st2) \<Rightarrow>
                  (case resolveRef env badCommit allBuilds st2 of
                     (Inl e, st3) \<Rightarrow> (Inl e, st3)
                   | (Inr badCommit', st3) \<Rightarrow>
                       (case buildsInRange allBuilds goodCommit' badCommit' of
                          Inl e \<Rightarrow> (Inl e, st3)
                        | Inr ranged \<Rightarrow>
                            (case excludeBuilds excludeCommits ranged st3 of
                               (kept, st4) \<Rightarrow> (Inr kept, st4)))))))"

subsection \<open>Metadata fetcher\<close>

text \<open>
  The desktop part of \<open>getPlatformName\<close> for Windows; \<open>None\<close> when the inner
  \<open>switch\<close> matches no flavor and control leaves the outer \<open>switch\<close>.
\<close>

definition windowsPlatformName :: "string \<Rightarrow> Flavor \<Rightarrow> string option" where
  "windowsPlatformName eArch flavor' =
     (case flavor' of
        Default \<Rightarrow> Some (''win32-'' @ eArch @ ''-archive'')
      | WindowsUserInstaller \<Rightarrow> Some (''win32-'' @ eArch @ ''-user'')
      | WindowsSystemInstaller \<Rightarrow> Some (''win32-'' @ eArch)
      | _ \<Rightarrow> None)"

text \<open>
  The desktop part for Linux: a flavor the inner \<open>switch\<close> does not match falls
  through to the Windows cases.
\<close>

definition linuxPlatformName :: "string \<Rightarrow> Flavor \<Rightarrow> string option" where
  "linuxPlatformName eArch flavor' =
     (case flavor' of
        Default \<Rightarrow> Some (''linux-'' @ eArch)
      | LinuxDeb \<Rightarrow> Some (''linux-deb-'' @ eArch)
      | LinuxRPM \<Rightarrow> Some (''linux-rpm-'' @ eArch)
      | LinuxSnap \<Rightarrow> Some (''linux-snap-'' @ eArch)
      | _ \<Rightarrow> windowsPlatformName eArch flavor')"

definition cliPlatformName :: "string \<Rightarrow> Platform \<Rightarrow> string" where
  "cliPlatformName eArch ePlatform =
     (case ePlatform of
        MacOSX64 \<Rightarrow> ''cli-darwin-'' @ eArch
      | MacOSArm \<Rightarrow> ''cli-darwin-'' @ eArch
      | LinuxX64 \<Rightarrow> ''cli-linux-'' @ eArch
      | LinuxArm \<Rightarrow> ''cli-linux-'' @ eArch
      | WindowsX64 \<Rightarrow> ''cli-win32-'' @ eArch
      | WindowsArm \<Rightarrow> ''cli-win32-'' @ eArch)"

definition getPlatformName ::
  "Env \<Rightarrow> Runtime \<Rightarrow> Flavor \<Rightarrow> Platform option \<Rightarrow> Arch option \<Rightarrow> string" where
  "getPlatformName env runtime' flavor' buildPlatform buildArch =
     (let ePlatform = effectivePlatform env buildPlatform;
          eArch = ArchValue env (effectiveArch env buildArch)
      in if runtime' = WebLocal \<or> runtime' = WebRemote then
           (case ePlatform of
              MacOSX64 \<Rightarrow> ''server-darwin-web''
            | MacOSArm \<Rightarrow> ''server-darwin-'' @ ArchValue env Arm64 @ ''-web''
            | LinuxX64 \<Rightarrow> ''server-linux-'' @ eArch @ ''-web''
            | LinuxArm \<Rightarrow> ''server-linux-'' @ eArch @ ''-web''
            | WindowsX64 \<Rightarrow> ''server-win32-'' @ eArch @ ''-web''
            | WindowsArm \<Rightarrow> ''server-win32-'' @ eArch @ ''-web'')
         else
           (case (if flavor' \<noteq> Cli then
                    (case ePlatform of
                       MacOSX64 \<Rightarrow>
                         Some (if flavor' = DarwinUniversal then ''darwin-universal''
                               else ''darwin'')
                     | MacOSArm \<Rightarrow>
                         Some (if flavor' = DarwinUniversal then ''darwin-universal''
                               else ''darwin-'' @ ArchValue env Arm64)
                     | LinuxX64 \<Rightarrow> linuxPlatformName eArch flavor'
                     | LinuxArm \<Rightarrow> linuxPlatformName eArch flavor'
                     | WindowsX64 \<Rightarrow> windowsPlatformName eArch flavor'
                     | WindowsArm \<Rightarrow> windowsPlatformName eArch flavor')
                  else None) of
              Some name \<Rightarrow> name
            | None \<Rightarrow> cliPlatformName eArch ePlatform))"

definition metadataUrl ::
  "Env \<Rightarrow> Runtime \<Rightarrow> string \<Rightarrow> Quality \<Rightarrow> Flavor \<Rightarrow> Platform option \<Rightarrow> Arch option
     \<Rightarrow> string" where
  "metadataUrl env runtime' commit' quality' flavor' buildPlatform buildArch =
     ''https://update.code.visualstudio.com/api/versions/commit:'' @ commit' @ ''/''
       @ getPlatformName env runtime' flavor' buildPlatform buildArch
       @ ''/'' @ QualityValue env quality'"

definition fetchBuildMeta ::
  "Env \<Rightarrow> Runtime \<Rightarrow> string \<Rightarrow> Quality \<Rightarrow> Flavor \<Rightarrow> Platform option \<Rightarrow> Arch option
     \<Rightarrow> State \<Rightarrow> (Error + IBuildMetadata) \<times> State" where
  "fetchBuildMeta env runtime' commit' quality' flavor' buildPlatform buildArch st =
     (case jsonGetMetadata env
             (metadataUrl env runtime' commit' quality' flavor' buildPlatform buildArch) st of
        (Inr meta, st1) \<Rightarrow> (Inr meta, st1)
      | (Inl error, st1) \<Rightarrow>
          if effectivePlatform env buildPlatform = MacOSArm \<and> quality' = Stable then
            (case jsonGetMetadata env
                    (metadataUrl env runtime' commit' quality' flavor' (Some MacOSX64) (Some X64))
                    st1 of
               (Inr meta, st2) \<Rightarrow> (Inr meta, st2)
             | (Inl ignore, st2) \<Rightarrow> (Inl error, st2))
          else (Inl error, st1))"

subsection \<open>Platform naming: the download name\<close>

definition cliDownloadName :: "Platform \<Rightarrow> string" where
  "cliDownloadName ePlatform =
     (case ePlatform of
        MacOSX64 \<Rightarrow> ''vscode_cli_darwin_x64_cli.zip''
      | MacOSArm \<Rightarrow> ''vscode_cli_darwin_arm64_cli.zip''
      | LinuxX64 \<Rightarrow> ''vscode_cli_linux_x64_cli.tar.gz''
      | LinuxArm \<Rightarrow> ''vscode_cli_linux_arm64_cli.tar.gz''
      | WindowsX64 \<Rightarrow> ''vscode_cli_win32_x64_cli.zip''
      | WindowsArm \<Rightarrow> ''vscode_cli_win32_arm64_cli.zip'')"

text \<open>
  The Windows desktop names; \<open>None\<close> when the inner \<open>switch\<close> matches no flavor and
  control goes on to the CLI names.
\<close>

definition windowsDownloadName :: "string \<Rightarrow> IBuildMetadata \<Rightarrow> Flavor \<Rightarrow> string option" where
  "windowsDownloadName eArch buildMeta flavor' =
     (case flavor' of
        Default \<Rightarrow> Some (''VSCode-win32-'' @ eArch @ ''-'' @ productVersion buildMeta @ ''.zip'')
      | WindowsSystemInstaller \<Rightarrow>
          Some (''VSCodeSetup-'' @ eArch @ ''-'' @ productVersion buildMeta @ ''.exe'')
      | WindowsUserInstaller \<Rightarrow>
          Some (''VSCodeUserSetup-'' @ eArch @ ''-'' @ productVersion buildMeta @ ''.exe'')
      | _ \<Rightarrow> None)"

text \<open>The name needs the build's metadata: a desktop, non-CLI build on Linux or Windows.\<close>

definition nameNeedsMeta :: "Runtime \<Rightarrow> Flavor \<Rightarrow> Platform \<Rightarrow> bool" where
  "nameNeedsMeta runtime' flavor' ePlatform =
     (runtime' \<noteq> WebLocal \<and> runtime' \<noteq> WebRemote \<and> flavor' \<noteq> Cli \<and>
      ePlatform \<noteq> MacOSX64 \<and> ePlatform \<noteq> MacOSArm)"

definition getBuildDownloadName ::
  "Env \<Rightarrow> Runtime \<Rightarrow> string \<Rightarrow> Quality \<Rightarrow> Flavor \<Rightarrow> Platform option \<Rightarrow> Arch option
     \<Rightarrow> State \<Rightarrow> (Error + string) \<times> State" where
  "getBuildDownloadName env runtime' commit' quality' flavor' buildPlatform buildArch st =
     (let ePlatform = effectivePlatform env buildPlatform;
          eArch = ArchValue env (effectiveArch env buildArch)
      in if runtime' = WebLocal \<or> runtime' = WebRemote then
           (case ePlatform of
              MacOSX64 \<Rightarrow> (Inr (''vscode-server-darwin-'' @ eArch @ ''-web.zip''), st)
            | MacOSArm \<Rightarrow> (Inr (''vscode-server-darwin-'' @ eArch @ ''-web.zip''), st)
            | LinuxX64 \<Rightarrow> (Inr (''vscode-server-linux-'' @ eArch @ ''-web.tar.gz''), st)
            | LinuxArm \<Rightarrow> (Inr (''vscode-server-linux-'' @ eArch @ ''-web.tar.gz''), st)
            | WindowsX64 \<Rightarrow> (Inr (''vscode-server-win32-'' @ eArch @ ''-web.zip''), st)
            | WindowsArm \<Rightarrow> (Inr (''vscode-server-win32-'' @ eArch @ ''-web.zip''), st))
         else if flavor' \<noteq> Cli then
           (if ePlatform = MacOSX64 then
              (Inr (if flavor' = DarwinUniversal then ''VSCode-darwin-universal.zip''
                    else ''VSCode-darwin.zip''), st)
            else if ePlatform = MacOSArm then
              (Inr (if flavor' = DarwinUniversal then ''VSCode-darwin-universal.zip''
                    else ''VSCode-darwin-'' @ ArchValue env Arm64 @ ''.zip''), st)
            else
              (case fetchBuildMeta env runtime' commit' quality' flavor' buildPlatform buildArch st of
                 (Inl e, st1) \<Rightarrow> (Inl e, st1)
               | (Inr buildMeta, st1) \<Rightarrow>
                   if ePlatform = LinuxX64 \<or> ePlatform = LinuxArm then
                     (Inr (last (splitOn CHR ''/'' (url buildMeta))), st1)
                   else
                     (case windowsDownloadName eArch buildMeta flavor' of
                        Some name \<Rightarrow> (Inr name, st1)
                      | None \<Rightarrow> (Inr (cliDownloadName ePlatform), st1))))
         else (Inr (cliDownloadName ePlatform), st))"

subsection \<open>Acquisition engine\<close>

text \<open>\<open>options?.forceReDownload\<close>; \<open>None\<close> is an \<open>options\<close> that was not passed.\<close>

definition forceReDownload :: "bool option \<Rightarrow> bool" where
  "forceReDownload options = (options = Some True)"

text \<open>\<open>path.substring(0, path.lastIndexOf('.zip'))\<close>\<close>

definition stripZip :: "string \<Rightarrow> string" where
  "stripZip path =
     (case lastIndexOf path ''.zip'' of Some i \<Rightarrow> take i path | None \<Rightarrow> [])"

definition addLog :: "LogLine \<Rightarrow> State \<Rightarrow> State" where
  "addLog l st = st\<lparr>logged := logged st @ [l]\<rparr>"

text \<open>Lines 273 to 289: unzip, unless the build is an installer.\<close>

definition extractBuild ::
  "Env \<Rightarrow> Runtime \<Rightarrow> Flavor \<Rightarrow> string \<Rightarrow> State \<Rightarrow> (Error + string option) \<times> State" where
  "extractBuild env runtime' flavor' path st =
     (if flavor' = Default \<or> flavor' = Cli \<or> flavor' = DarwinUniversal then
        (let destination =
               (if (runtime' = DesktopLocal \<or> runtime' = WebLocal) \<and> flavor' = Default \<and>
                   (hostPlatform env = WindowsX64 \<or> hostPlatform env = WindowsArm)
                then stripZip path else dirname path)
         in case unzip env path destination (addLog (Unzipping path destination) st) of
              (Inl e, st1) \<Rightarrow> (Inl e, st1)
            | (Inr _, st1) \<Rightarrow> (Inr (Some destination), st1))
      else (Inr (Some path), st))"

text \<open>Lines 260 to 289: download, validate the checksum, extract.\<close>

definition downloadBuild ::
  "Env \<Rightarrow> Runtime \<Rightarrow> string \<Rightarrow> Quality \<Rightarrow> Flavor \<Rightarrow> string \<Rightarrow> State
     \<Rightarrow> (Error + string option) \<times> State" where
  "downloadBuild env runtime' commit' quality' flavor' path st =
     (case fetchBuildMeta env runtime' commit' quality' flavor' None None st of
        (Inl e, st1) \<Rightarrow> (Inl e, st1)
      | (Inr meta, st1) \<Rightarrow>
          (case fileGet env (url meta) path (addLog (DownloadingBuild (url meta)) st1) of
             (Inl e, st2) \<Rightarrow> (Inl e, st2)
           | (Inr _, st2) \<Rightarrow>
               (case computeSHA256 env path st2 of
                  Inl e \<Rightarrow> (Inl e, st2)
                | Inr computedSHA256 \<Rightarrow>
                    if sha256hash meta \<noteq> computedSHA256
                    then (Inl (ChecksumMismatch (sha256hash meta) computedSHA256), st2)
                    else extractBuild env runtime' flavor' path (addLog ChecksumMatches st2))))"

subsection \<open>Alternate-channel acquisition\<close>

text \<open>\<open>obj[key] = v\<close> on the members of a JSON object.\<close>

fun setMember :: "string \<Rightarrow> Json \<Rightarrow> (string \<times> Json) list \<Rightarrow> (string \<times> Json) list" where
  "setMember k v [] = [(k, v)]"
| "setMember k v ((k', v') # ms) =
     (if k' = k then (k, v) # ms else (k', v') # setMember k v ms)"

definition extensionsGallery :: Json where
  "extensionsGallery =
     JObject
       [(''serviceUrl'', JString ''https://marketplace.visualstudio.com/_apis/public/gallery''),
        (''cacheUrl'', JString ''https://vscode.blob.core.windows.net/gallery/index''),
        (''itemUrl'', JString ''https://marketplace.visualstudio.com/items''),
        (''controlUrl'', JString ''''),
        (''recommendationsUrl'', JString '''')]"

text \<open>
  Lines 355 to 366 on the parsed \<open>product.json\<close>. Setting a property of \<open>null\<close> or of
  a primitive value throws a \<open>TypeError\<close> in a module; on an array the properties are set
  and \<open>JSON.stringify\<close> leaves them out.
\<close>

definition patchProductData :: "Json \<Rightarrow> Json option" where
  "patchProductData productData =
     (case productData of
        JObject ms \<Rightarrow>
          Some (JObject
            (setMember ''nameShort'' (JString ''VSCodium - Bisect'')
              (setMember ''quality'' (JString ''insider'')
                (setMember ''extensionsGallery'' extensionsGallery ms))))
      | JArray xs \<Rightarrow> Some (JArray xs)
      | _ \<Rightarrow> None)"

definition runSpawn :: "Env \<Rightarrow> string \<Rightarrow> string list \<Rightarrow> State \<Rightarrow> SpawnResult \<times> State" where
  "runSpawn env command args st =
     (case spawnSync env command args (files st) of
        (result, fs) \<Rightarrow> (result, st\<lparr>files := fs, spawned := spawned st @ [Spawn command args]\<rparr>))"

text \<open>Lines 349 to 369: patch \<open>product.json\<close> when it exists.\<close>

definition patchProductJson :: "Env \<Rightarrow> string \<Rightarrow> State \<Rightarrow> (Error + unit) \<times> State" where
  "patchProductJson env appPath st =
     (let productJsonPath =
            join (join (join (join appPath ''Contents'') ''Resources'') ''app'') ''product.json''
      in if exists productJsonPath st then
           (let st1 = addLog (PatchingProductJson productJsonPath) st
            in case map_of (files st1) productJsonPath of
                 None \<Rightarrow> (Inl (FileError productJsonPath), st1)
               | Some content \<Rightarrow>
                   (case JSON_parse env content of
                      None \<Rightarrow> (Inl SyntaxError, st1)
                    | Some productData \<Rightarrow>
                        (case patchProductData productData of
                           None \<Rightarrow> (Inl TypeError, st1)
                         | Some patched \<Rightarrow>
                             (Inr (),
                              st1\<lparr>files :=
                                writeFile productJsonPath (JSON_stringify env patched) (files st1)\<rparr>))))
         else (Inr (), st))"

text \<open>Lines 339 to 376: the extraction on macOS.\<close>

definition extractVSCodiumMac :: "Env \<Rightarrow> string \<Rightarrow> string \<Rightarrow> State \<Rightarrow> (Error + string) \<times> State" where
  "extractVSCodiumMac env zipPath destination st =
     (case runSpawn env ''unzip'' [''-q'', zipPath, ''-d'', destination] st of
        (result, st1) \<Rightarrow>
          if spawnError result \<noteq> None \<or> status result \<noteq> 0 then
            (Inl (FailedToUnzipVSCodium
                    (case spawnError result of
                       Some e \<Rightarrow> e
                     | None \<Rightarrow> (case stderr result of Some err \<Rightarrow> err | None \<Rightarrow> ''Unknown error''))),
             st1)
          else
            (let appPath = join destination ''VSCodium.app''
             in if exists appPath st1 then
                  (case patchProductJson env appPath st1 of
                     (Inl e, st2) \<Rightarrow> (Inl e, st2)
                   | (Inr _, st2) \<Rightarrow>
                       (case runSpawn env ''xattr''
                               [''-r'', ''-d'', ''com.apple.quarantine'', appPath] st2 of
                          (_, st3) \<Rightarrow>
                            (case runSpawn env ''codesign''
                                    [''--force'', ''--deep'', ''--sign'', ''-'', appPath] st3 of
                               (_, st4) \<Rightarrow> (Inr destination, st4))))
                else (Inr destination, st1)))"

text \<open>
  Lines 299 to 313: the asset URL and the extension for the host platform. No branch
  is for a Windows platform.
\<close>

definition assetUrl :: "Env \<Rightarrow> Assets \<Rightarrow> string option \<times> string" where
  "assetUrl env assets' =
     (if hostPlatform env = MacOSArm then (map_of assets' ''darwin_arm64'', ''.zip'')
      else if hostPlatform env = MacOSX64 then (map_of assets' ''darwin_x64'', ''.zip'')
      else if hostPlatform env = LinuxX64 then (map_of assets' ''linux_x64'', ''.tar.gz'')
      else if hostPlatform env = LinuxArm then (map_of assets' ''linux_arm64'', ''.tar.gz'')
      else (None, ''.zip''))"

text \<open>\<open>`${version}`\<close>\<close>

definition versionText :: "string option \<Rightarrow> string" where
  "versionText v = (case v of Some t \<Rightarrow> t | None \<Rightarrow> ''undefined'')"

text \<open>Lines 319 to 381, once the asset URL is known.\<close>

definition acquireVSCodium ::
  "Env \<Rightarrow> IBuild \<Rightarrow> bool option \<Rightarrow> string \<Rightarrow> string \<Rightarrow> State \<Rightarrow> (Error + string) \<times> State" where
  "acquireVSCodium env build options url' ext st =
     (let buildName = ''VSCodium-'' @ versionText (version build) @ ext;
          folder = getBuildPath env (commit build) (quality build) (flavor build);
          zipPath = join folder buildName
      in if exists folder st \<and> \<not> forceReDownload options then
           (Inr folder, addLog (UsingCachedVSCodium folder) st)
         else
           (let st1 = (if exists folder st then rmSync folder st else st)
            in case fileGet env url' zipPath (addLog (DownloadingVSCodium url') st1) of
                 (Inl e, st2) \<Rightarrow> (Inl e, st2)
               | (Inr _, st2) \<Rightarrow>
                   (let st3 = addLog (ExtractingVSCodium folder) st2
                    in if hostPlatform env = MacOSArm \<or> hostPlatform env = MacOSX64
                       then extractVSCodiumMac env zipPath folder st3
                       else
                         (case unzip env zipPath folder st3 of
                            (Inl e, st4) \<Rightarrow> (Inl e, st4)
                          | (Inr _, st4) \<Rightarrow> (Inr folder, st4)))))"

text \<open>\<open>!assets\<close> holds for a missing map; \<open>!url\<close> for a missing or an empty URL.\<close>

definition downloadAndExtractVSCodium ::
  "Env \<Rightarrow> IBuild \<Rightarrow> bool option \<Rightarrow> State \<Rightarrow> (Error + string) \<times> State" where
  "downloadAndExtractVSCodium env build options st =
     (case assets build of
        None \<Rightarrow> (Inl (MissingAssetsMap (version build) (commit build)), st)
      | Some assets' \<Rightarrow>
          (case assetUrl env assets' of
             (None, ext) \<Rightarrow> (Inl (NoVSCodiumAsset (hostPlatform env) (version build)), st)
           | (Some url', ext) \<Rightarrow>
               if url' = [] then (Inl (NoVSCodiumAsset (hostPlatform env) (version build)), st)
               else acquireVSCodium env build options url' ext st))"

definition downloadAndExtractBuild ::
  "Env \<Rightarrow> IBuild \<Rightarrow> bool option \<Rightarrow> State \<Rightarrow> (Error + string option) \<times> State" where
  "downloadAndExtractBuild env build options st =
     (if quality build = VSCodiumInsider then
        (case downloadAndExtractVSCodium env build options st of
           (Inl e, st1) \<Rightarrow> (Inl e, st1)
         | (Inr folder, st1) \<Rightarrow> (Inr (Some folder), st1))
      else if isDockerCliFlavor env (flavor build) then (Inr None, st)
      else
        (case getBuildDownloadName env (runtime build) (commit build) (quality build)
                (flavor build) None None st of
           (Inl e, st1) \<Rightarrow> (Inl e, st1)
         | (Inr buildName, st1) \<Rightarrow>
             (let buildPath = getBuildPath env (commit build) (quality build) (flavor build);
                  path = join buildPath buildName;
                  pathExists = exists path st1
              in if pathExists \<and> \<not> forceReDownload options then
                   (Inr (Some path), addLog (UsingCachedBuild path) st1)
                 else
                   downloadBuild env (runtime build) (commit build) (quality build)
                     (flavor build) path
                     (if pathExists \<and> forceReDownload options
                      then rmSync buildPath (addLog (DeletingAndRetrying buildPath) st1)
                      else st1))))"

subsection \<open>Notions of the properties\<close>

text \<open>
  A build that the loop of \<open>resolveDateToBuild\<close> can select: its date is truthy and its
  distance \<open>Math.abs(buildTime - targetTime)\<close> is a number below \<open>Number.MAX_VALUE\<close>.
\<close>

definition selectable :: "Env \<Rightarrow> JSNumber \<Rightarrow> IBuild \<Rightarrow> bool" where
  "selectable env targetTime build =
     (truthyDate (date build) \<and> jsLess (timeDiff env targetTime build) (Finite MAX_VALUE))"

text \<open>
  The build at index \<open>i\<close> is the first one at the minimum distance: no selectable build
  is nearer and every earlier one is farther.
\<close>

definition firstMinimum :: "Env \<Rightarrow> JSNumber \<Rightarrow> IBuild list \<Rightarrow> nat \<Rightarrow> bool" where
  "firstMinimum env targetTime builds i =
     (i < length builds \<and> selectable env targetTime (builds ! i) \<and>
      (\<forall>j < length builds. selectable env targetTime (builds ! j) \<longrightarrow>
         \<not> jsLess (timeDiff env targetTime (builds ! j)) (timeDiff env targetTime (builds ! i)) \<and>
         (j < i \<longrightarrow>
            jsLess (timeDiff env targetTime (builds ! i)) (timeDiff env targetTime (builds ! j)))))"

text \<open>
  For the proofs: the distance of a selectable build as a real number, and the first
  minimum together with its distance.
\<close>

definition candidateDiff :: "Env \<Rightarrow> JSNumber \<Rightarrow> IBuild \<Rightarrow> real option" where
  "candidateDiff env targetTime build =
     (if truthyDate (date build) then
        (case timeDiff env targetTime build of
           Finite d \<Rightarrow> if d < MAX_VALUE then Some d else None
         | _ \<Rightarrow> None)
      else None)"

definition firstMinimumAt :: "Env \<Rightarrow> JSNumber \<Rightarrow> IBuild list \<Rightarrow> nat \<Rightarrow> real \<Rightarrow> bool" where
  "firstMinimumAt env targetTime builds i m =
     (i < length builds \<and> candidateDiff env targetTime (builds ! i) = Some m \<and>
      (\<forall>j < length builds. \<forall>d. candidateDiff env targetTime (builds ! j) = Some d \<longrightarrow>
         m \<le> d \<and> (j < i \<longrightarrow> m < d)))"

text \<open>Network calls that are all JSON queries: none of them downloads a file.\<close>

definition metadataQueries :: "NetCall list \<Rightarrow> bool" where
  "metadataQueries calls =
     list_all (\<lambda>call. case call of JsonGet _ \<Rightarrow> True | FileGet _ _ \<Rightarrow> False) calls"

subsection \<open>An example host\<close>

text \<open>
  A concrete environment for the examples: a Linux x64 host whose \<open>Date\<close> works in the
  UTC zone, with no history file and no network. The examples change single fields.
  \<open>utcDate\<close> is the day count of the proleptic Gregorian calendar, in milliseconds.
\<close>

definition utcDate :: "int \<Rightarrow> int \<Rightarrow> int \<Rightarrow> int" where
  "utcDate year monthIndex day =
     (let y0 = (if 0 \<le> year \<and> year \<le> 99 then 1900 + year else year) + monthIndex div 12;
          m = monthIndex mod 12 + 1;
          y = (if m \<le> 2 then y0 - 1 else y0);
          era = y div 400;
          yoe = y - era * 400;
          doy = (153 * (if m > 2 then m - 3 else m + 9) + 2) div 5 + day - 1;
          doe = yoe * 365 + yoe div 4 - yoe div 100 + doy
      in (era * 146097 + doe - 719468) * 86400000)"

definition exampleEnv :: Env where
  "exampleEnv =
     \<lparr>hostPlatform = LinuxX64, hostArch = X64,
      ArchValue = (\<lambda>a. case a of X64 \<Rightarrow> ''x64'' | Arm64 \<Rightarrow> ''arm64''),
      QualityValue = (\<lambda>q. case q of Insider \<Rightarrow> ''insider'' | Stable \<Rightarrow> ''stable''
                         | VSCodiumInsider \<Rightarrow> ''vscodium-insider''),
      isDockerCliFlavor = (\<lambda>f. case f of OtherFlavor _ \<Rightarrow> True | _ \<Rightarrow> False),
      getBuildPath = (\<lambda>c q f. ''/builds/'' @ c),
      cwd = ''/work'',
      localDate = utcDate,
      parseDate =
        (\<lambda>s. if s = ''2023-04-01T00:00:00.000Z'' then Some 1680307200000 else None),
      readHistory = (\<lambda>p. Inl ''ENOENT''),
      sha256 = (\<lambda>content. ''sha:'' @ content),
      commitsAt = (\<lambda>n u. Inl ''offline''),
      metadataAt = (\<lambda>n u. Inl ''offline''),
      downloadAt = (\<lambda>n u. Inl ''offline''),
      archiveEntries = (\<lambda>content. Inl ''not an archive''),
      spawnSync =
        (\<lambda>command args fs. (\<lparr>spawnError = Some ''ENOENT'', status = 1, stderr = None\<rparr>, fs)),
      JSON_parse = (\<lambda>s. None),
      JSON_stringify = (\<lambda>j. '''')\<rparr>"

definition emptyState :: State where
  "emptyState = \<lparr>files = [], net = [], spawned = [], logged = []\<rparr>"

definition vscodiumBuild :: IBuild where
  "vscodiumBuild =
     \<lparr>runtime = DesktopLocal, quality = VSCodiumInsider, flavor = Default, platform = None,
      arch = None, commit = ''c0ffee'', date = None, version = Some ''1.90.0'',
      assets = Some [(''darwin_arm64'', ''https://example.org/VSCodium-darwin-arm64.zip''),
                     (''linux_x64'', ''https://example.org/VSCodium-linux-x64.tar.gz'')]\<rparr>"

definition exampleHistory :: "HistoryEntry list" where
  "exampleHistory =
     [\<lparr>h_commit = ''c1'', h_date = Some (DateNumber (Finite 1678752000000)),
       h_version = Some ''1.76.1'', h_assets = None\<rparr>,
      \<lparr>h_commit = ''c2'', h_date = Some (DateNumber (Finite 1679011200000)),
       h_version = Some ''1.76.2'', h_assets = None\<rparr>,
      \<lparr>h_commit = ''c3'', h_date = None, h_version = None, h_assets = None\<rparr>,
      \<lparr>h_commit = ''c4'', h_date = Some (DateString ''2023-04-01T00:00:00.000Z''),
       h_version = None, h_assets = None\<rparr>]"

definition historyEnv :: Env where
  "historyEnv =
     exampleEnv\<lparr>readHistory :=
       (\<lambda>p. if p = ''/work/vscode_stable_history.json'' then Inr exampleHistory
            else Inl ''ENOENT'')\<rparr>"

definition exampleBuilds :: "IBuild list" where
  "exampleBuilds = map (historyBuild DesktopLocal Stable Default) (rev exampleHistory)"

definition linuxMeta :: IBuildMetadata where
  "linuxMeta =
     \<lparr>url = ''https://cdn.example.org/stable/abc/code-stable-x64-1700000000.tar.gz'',
      metaVersion = ''abc'', productVersion = ''1.85.0'', sha256hash = ''sha:payload''\<rparr>"

definition onlineEnv :: Env where
  "onlineEnv =
     exampleEnv\<lparr>metadataAt := (\<lambda>n u. Inr linuxMeta), downloadAt := (\<lambda>n u. Inr ''corrupted'')\<rparr>"

definition stableBuild :: IBuild where
  "stableBuild = commitBuild DesktopLocal Stable Default ''abc''"

definition cachedState :: State where
  "cachedState =
     emptyState\<lparr>files := [(''/builds/abc/code-stable-x64-1700000000.tar.gz'', ''payload'')]\<rparr>"

section \<open>Properties\<close>

subsection \<open>The API name of the server runtimes\<close>

lemma isPrefixOf_append: "isPrefixOf a (a @ s)"
  by (induction a) auto

lemma contains_prefix: "isPrefixOf sub xs \<Longrightarrow> contains xs sub"
  by (cases xs) (auto elim: isPrefixOf.elims)

lemma contains_append_left: "contains xs sub \<Longrightarrow> contains (p @ xs) sub"
  by (induction p) auto

lemma contains_middle: "contains (p @ a @ s) a"
  by (simp add: contains_append_left contains_prefix isPrefixOf_append)

text \<open>
  C6 (as amended). For every flavor and every effective architecture, when the runtime
  is web-local or web-remote, \<open>getBuildApiName\<close> returns \<open>server-linux-<arch>-web\<close> on
  the Linux platforms and \<open>server-win32-<arch>-web\<close> on the Windows platforms, a string
  that contains the effective architecture; on both macOS platforms it returns
  \<open>server-darwin-web\<close>, which names no architecture.
\<close>

theorem getBuildApiName_server:
  assumes "runtime' = WebLocal \<or> runtime' = WebRemote"
  shows "getBuildApiName env runtime' flavor' buildPlatform buildArch =
           (case effectivePlatform env buildPlatform of
              MacOSX64 \<Rightarrow> ''server-darwin-web''
            | MacOSArm \<Rightarrow> ''server-darwin-web''
            | LinuxX64 \<Rightarrow> ''server-linux-'' @ ArchValue env (effectiveArch env buildArch) @ ''-web''
            | LinuxArm \<Rightarrow> ''server-linux-'' @ ArchValue env (effectiveArch env buildArch) @ ''-web''
            | WindowsX64 \<Rightarrow> ''server-win32-'' @ ArchValue env (effectiveArch env buildArch) @ ''-web''
            | WindowsArm \<Rightarrow> ''server-win32-'' @ ArchValue env (effectiveArch env buildArch) @ ''-web'')
         \<and> (effectivePlatform env buildPlatform \<noteq> MacOSX64 \<and>
            effectivePlatform env buildPlatform \<noteq> MacOSArm \<longrightarrow>
            contains (getBuildApiName env runtime' flavor' buildPlatform buildArch)
              (ArchValue env (effectiveArch env buildArch)))"
proof -
  have eq: "getBuildApiName env runtime' flavor' buildPlatform buildArch =
           (case effectivePlatform env buildPlatform of
              MacOSX64 \<Rightarrow> ''server-darwin-web''
            | MacOSArm \<Rightarrow> ''server-darwin-web''
            | LinuxX64 \<Rightarrow> ''server-linux-'' @ ArchValue env (effectiveArch env buildArch) @ ''-web''
            | LinuxArm \<Rightarrow> ''server-linux-'' @ ArchValue env (effectiveArch env buildArch) @ ''-web''
            | WindowsX64 \<Rightarrow> ''server-win32-'' @ ArchValue env (effectiveArch env buildArch) @ ''-web''
            | WindowsArm \<Rightarrow> ''server-win32-'' @ ArchValue env (effectiveArch env buildArch) @ ''-web'')"
    using assms by (auto simp: getBuildApiName_def Let_def)
  have "contains (getBuildApiName env runtime' flavor' buildPlatform buildArch)
           (ArchValue env (effectiveArch env buildArch))"
    if "effectivePlatform env buildPlatform \<noteq> MacOSX64"
      "effectivePlatform env buildPlatform \<noteq> MacOSArm"
    using that unfolding eq
    by (cases "effectivePlatform env buildPlatform") (simp_all only: Platform.case contains_middle, simp_all)
  with eq show ?thesis by blast
qed

theorem getBuildApiName_server_witness:
  "getBuildApiName exampleEnv WebRemote Cli (Some WindowsArm) (Some Arm64) = ''server-win32-arm64-web''
   \<and> contains (getBuildApiName exampleEnv WebRemote Cli (Some WindowsArm) (Some Arm64)) ''arm64''"
  using getBuildApiName_server [of WebRemote exampleEnv Cli "Some WindowsArm" "Some Arm64"]
  by (simp add: exampleEnv_def effectivePlatform_def effectiveArch_def)

text \<open>
  C6 as stated fails on macOS: on an Apple-silicon host the API name of a web-local
  build is \<open>server-darwin-web\<close> and does not contain \<open>arm64\<close>.
\<close>

theorem getBuildApiName_macos_counterexample:
  "getBuildApiName (exampleEnv\<lparr>hostPlatform := MacOSArm, hostArch := Arm64\<rparr>) WebLocal Default None None
     = ''server-darwin-web''
   \<and> \<not> contains (getBuildApiName (exampleEnv\<lparr>hostPlatform := MacOSArm, hostArch := Arm64\<rparr>) WebLocal Default None None)
      (ArchValue (exampleEnv\<lparr>hostPlatform := MacOSArm, hostArch := Arm64\<rparr>)
         (effectiveArch (exampleEnv\<lparr>hostPlatform := MacOSArm, hostArch := Arm64\<rparr>) None))"
  by (simp add: exampleEnv_def getBuildApiName_def effectivePlatform_def effectiveArch_def)

subsection \<open>The alternate channel on Windows\<close>

lemma assetUrl_windows:
  "hostPlatform env = WindowsX64 \<or> hostPlatform env = WindowsArm \<Longrightarrow> assetUrl env a = (None, ''.zip'')"
  by (auto simp: assetUrl_def)

text \<open>
  C10 (as amended). On every Windows platform \<open>downloadAndExtractVSCodium\<close> fails
  before any download, network call or change on disk: with the error "No VSCodium asset
  found for current platform" for every build that has an assets map, whatever the map
  holds, and with the error "is missing assets map" for a build that has none.
\<close>

theorem downloadAndExtractVSCodium_windows:
  assumes "hostPlatform env = WindowsX64 \<or> hostPlatform env = WindowsArm"
  shows "downloadAndExtractVSCodium env build options st =
           (case assets build of
              None \<Rightarrow> (Inl (MissingAssetsMap (version build) (commit build)), st)
            | Some a \<Rightarrow> (Inl (NoVSCodiumAsset (hostPlatform env) (version build)), st))"
  by (simp add: downloadAndExtractVSCodium_def assetUrl_windows [OF assms] split: option.split)

theorem downloadAndExtractVSCodium_windows_witness:
  "downloadAndExtractVSCodium (exampleEnv\<lparr>hostPlatform := WindowsX64\<rparr>) vscodiumBuild None emptyState
     = (Inl (NoVSCodiumAsset WindowsX64 (Some ''1.90.0'')), emptyState)"
  using downloadAndExtractVSCodium_windows
          [of "exampleEnv\<lparr>hostPlatform := WindowsX64\<rparr>" vscodiumBuild None emptyState]
  by (simp add: vscodiumBuild_def)

text \<open>
  C10 as stated fails for a build without an assets map: the error is the one of the
  missing map, not the one of the missing asset.
\<close>

theorem downloadAndExtractVSCodium_no_assets_counterexample:
  "downloadAndExtractVSCodium (exampleEnv\<lparr>hostPlatform := WindowsX64\<rparr>)
      (vscodiumBuild\<lparr>assets := None\<rparr>) None emptyState
     = (Inl (MissingAssetsMap (Some ''1.90.0'') ''c0ffee''), emptyState)"
  by (simp add: downloadAndExtractVSCodium_def vscodiumBuild_def)

subsection \<open>The metadata fallback\<close>

text \<open>
  C5. When the metadata query succeeds, its answer is returned after one call. When it
  fails and the effective platform is macOS ARM64 and the quality is stable, there is
  exactly one more call, for the Intel macOS platform and the x64 architecture; its answer
  is returned when it succeeds, and the error of the first call is thrown when it fails
  too. In every other failure the error is thrown after the one call.
\<close>

theorem fetchBuildMeta_fallback:
  "(metadataAt env (length (net st))
       (metadataUrl env runtime' commit' quality' flavor' buildPlatform buildArch) = Inr meta \<longrightarrow>
     fetchBuildMeta env runtime' commit' quality' flavor' buildPlatform buildArch st =
       (Inr meta,
        st\<lparr>net := net st @
          [JsonGet (metadataUrl env runtime' commit' quality' flavor' buildPlatform buildArch)]\<rparr>))
   \<and> (metadataAt env (length (net st))
       (metadataUrl env runtime' commit' quality' flavor' buildPlatform buildArch) = Inl e \<and>
      effectivePlatform env buildPlatform = MacOSArm \<and> quality' = Stable \<longrightarrow>
     fetchBuildMeta env runtime' commit' quality' flavor' buildPlatform buildArch st =
       ((case metadataAt env (Suc (length (net st)))
                (metadataUrl env runtime' commit' quality' flavor' (Some MacOSX64) (Some X64)) of
           Inr meta' \<Rightarrow> Inr meta'
         | Inl e' \<Rightarrow> Inl (FetchError e)),
        st\<lparr>net := net st @
          [JsonGet (metadataUrl env runtime' commit' quality' flavor' buildPlatform buildArch),
           JsonGet (metadataUrl env runtime' commit' quality' flavor' (Some MacOSX64) (Some X64))]\<rparr>))
   \<and> (metadataAt env (length (net st))
       (metadataUrl env runtime' commit' quality' flavor' buildPlatform buildArch) = Inl e \<and>
      \<not> (effectivePlatform env buildPlatform = MacOSArm \<and> quality' = Stable) \<longrightarrow>
     fetchBuildMeta env runtime' commit' quality' flavor' buildPlatform buildArch st =
       (Inl (FetchError e),
        st\<lparr>net := net st @
          [JsonGet (metadataUrl env runtime' commit' quality' flavor' buildPlatform buildArch)]\<rparr>))"
  by (auto simp: fetchBuildMeta_def jsonGetMetadata_def split: sum.splits)

theorem fetchBuildMeta_fallback_witness:
  "fetchBuildMeta
     (exampleEnv\<lparr>hostPlatform := MacOSArm, hostArch := Arm64,
        metadataAt := (\<lambda>n u. if n = 0 then Inl ''404 arm64'' else Inl ''404 x64'')\<rparr>)
     DesktopLocal ''abc'' Stable Default None None emptyState =
     (Inl (FetchError ''404 arm64''),
      emptyState\<lparr>net :=
        [JsonGet ''https://update.code.visualstudio.com/api/versions/commit:abc/darwin-arm64/stable'',
         JsonGet ''https://update.code.visualstudio.com/api/versions/commit:abc/darwin/stable'']\<rparr>)
   \<and> fetchBuildMeta
     (exampleEnv\<lparr>hostPlatform := MacOSArm, hostArch := Arm64,
        metadataAt := (\<lambda>n u. if n = 0 then Inl ''404 arm64'' else Inr linuxMeta)\<rparr>)
     DesktopLocal ''abc'' Stable Default None None emptyState =
     (Inr linuxMeta,
      emptyState\<lparr>net :=
        [JsonGet ''https://update.code.visualstudio.com/api/versions/commit:abc/darwin-arm64/stable'',
         JsonGet ''https://update.code.visualstudio.com/api/versions/commit:abc/darwin/stable'']\<rparr>)
   \<and> fetchBuildMeta
     (exampleEnv\<lparr>metadataAt := (\<lambda>n u. if n = 0 then Inl ''404 linux'' else Inl ''404 x64'')\<rparr>)
     DesktopLocal ''abc'' Stable Default None None emptyState =
     (Inl (FetchError ''404 linux''),
      emptyState\<lparr>net :=
        [JsonGet ''https://update.code.visualstudio.com/api/versions/commit:abc/linux-x64/stable'']\<rparr>)
   \<and> fetchBuildMeta onlineEnv DesktopLocal ''abc'' Stable Default None None emptyState =
     (Inr linuxMeta,
      emptyState\<lparr>net :=
        [JsonGet ''https://update.code.visualstudio.com/api/versions/commit:abc/linux-x64/stable'']\<rparr>)"
  using fetchBuildMeta_fallback
     [of "exampleEnv\<lparr>hostPlatform := MacOSArm, hostArch := Arm64,
        metadataAt := (\<lambda>n u. if n = 0 then Inl ''404 arm64'' else Inl ''404 x64'')\<rparr>"
        emptyState DesktopLocal "''abc''" Stable Default None None _ "''404 arm64''"]
    fetchBuildMeta_fallback
     [of "exampleEnv\<lparr>hostPlatform := MacOSArm, hostArch := Arm64,
        metadataAt := (\<lambda>n u. if n = 0 then Inl ''404 arm64'' else Inr linuxMeta)\<rparr>"
        emptyState DesktopLocal "''abc''" Stable Default None None _ "''404 arm64''"]
    fetchBuildMeta_fallback
     [of "exampleEnv\<lparr>metadataAt := (\<lambda>n u. if n = 0 then Inl ''404 linux'' else Inl ''404 x64'')\<rparr>"
        emptyState DesktopLocal "''abc''" Stable Default None None _ "''404 linux''"]
    fetchBuildMeta_fallback
     [of onlineEnv emptyState DesktopLocal "''abc''" Stable Default None None linuxMeta]
  by (simp add: onlineEnv_def exampleEnv_def emptyState_def metadataUrl_def getPlatformName_def
      effectivePlatform_def effectiveArch_def linuxPlatformName_def)

subsection \<open>An unreadable history file\<close>

text \<open>
  C8. For every quality, when reading or parsing the history file fails, \<open>loadHistory\<close>
  logs the failure and returns the empty list, and \<open>fetchAllBuilds\<close> goes on to the
  discovery query: its result is the answer of that query, or the query's own error,
  never the error of the load.
\<close>

theorem fetchAllBuilds_unreadable_history:
  assumes "readHistory env (join (cwd env) (historyFilename quality')) = Inl e"
  shows "loadHistory env quality' st =
           ([], st\<lparr>logged := logged st @
                   [FailedToLoadHistory (join (cwd env) (historyFilename quality')) e]\<rparr>)
         \<and> fetchAllBuilds env runtime' quality' flavor' releasedOnly False st =
           ((case commitsAt env (length (net st))
                    (commitsUrl env runtime' quality' flavor' releasedOnly) of
               Inl failure \<Rightarrow> Inl (FetchError failure)
             | Inr commits \<Rightarrow> Inr (map (commitBuild runtime' quality' flavor') commits)),
            st\<lparr>logged := logged st @
                   [FailedToLoadHistory (join (cwd env) (historyFilename quality')) e,
                    FetchingAllBuilds (commitsUrl env runtime' quality' flavor' releasedOnly)],
               net := net st @ [JsonGet (commitsUrl env runtime' quality' flavor' releasedOnly)]\<rparr>)"
  using assms
  by (auto simp: loadHistory_def fetchAllBuilds_def jsonGetCommits_def Let_def split: sum.splits)

theorem fetchAllBuilds_unreadable_history_witness:
  "fetchAllBuilds (exampleEnv\<lparr>commitsAt := (\<lambda>n u. Inr [''c2'', ''c1''])\<rparr>)
      DesktopLocal Insider Default False False emptyState =
     (Inr [commitBuild DesktopLocal Insider Default ''c2'',
           commitBuild DesktopLocal Insider Default ''c1''],
      emptyState\<lparr>logged :=
          [FailedToLoadHistory ''/work/vscode_insider_history.json'' ''ENOENT'',
           FetchingAllBuilds
             ''https://update.code.visualstudio.com/api/commits/insider/linux-x64?released=false''],
        net := [JsonGet
             ''https://update.code.visualstudio.com/api/commits/insider/linux-x64?released=false'']\<rparr>)"
  using fetchAllBuilds_unreadable_history
     [of "exampleEnv\<lparr>commitsAt := (\<lambda>n u. Inr [''c2'', ''c1''])\<rparr>" Insider "''ENOENT''"
         emptyState DesktopLocal Default False]
  by (simp add: exampleEnv_def emptyState_def commitsUrl_def getBuildApiName_def
      effectivePlatform_def effectiveArch_def join_def historyFilename_def)

subsection \<open>The range of builds\<close>

lemma indexOf_less: "indexOf c bs = Some i \<Longrightarrow> i < length bs"
  by (induction bs arbitrary: i) (auto split: if_splits)

lemma slice_nth:
  assumes "0 \<le> b" "b < g" "g < int (length xs)"
  shows "slice xs b (g + 1) = map ((!) xs) [nat b ..< Suc (nat g)]"
proof -
  have "take (nat (g + 1 - b)) (drop (nat b) xs) = map ((!) xs) [nat b ..< Suc (nat g)]"
    using assms
    by (intro nth_equalityI) (auto simp del: upt_Suc simp: nat_diff_distrib nat_add_distrib)
  then show ?thesis
    using assms by (simp add: slice_def Let_def min_def)
qed

lemma slice_all: "slice xs 0 (int (length xs) - 1 + 1) = xs"
  by (simp add: slice_def)

lemma goodCommitIndex_bound: "goodCommitIndex bs g = Inr i \<Longrightarrow> i < int (length bs)"
  by (auto simp: goodCommitIndex_def split: option.splits dest: indexOf_less)

lemma badCommitIndex_bound: "badCommitIndex bs b = Inr i \<Longrightarrow> 0 \<le> i"
  by (auto simp: badCommitIndex_def split: option.splits)

lemma fetchAllBuilds_history:
  assumes "readHistory env (join (cwd env) (historyFilename quality')) = Inr history"
    and "history \<noteq> []"
  shows "fetchAllBuilds env runtime' quality' flavor' releasedOnly False st =
           (Inr (map (historyBuild runtime' quality' flavor') (rev history)),
            st\<lparr>logged := logged st @ [LoadedFromLocalHistory (length history)]\<rparr>)"
  using assms by (simp add: fetchAllBuilds_def loadHistory_def Let_def)

lemma buildsInRange_default:
  "buildsInRange allBuilds None None =
     (if 2 \<le> length allBuilds then Inr allBuilds else Inl (BadNotNewerThanGood None None))"
  using slice_all [of allBuilds]
  by (auto simp: buildsInRange_def goodCommitIndex_def badCommitIndex_def)

lemma historyEnv_fetchAll:
  "fetchAllBuilds historyEnv DesktopLocal Stable Default False False emptyState =
     (Inr exampleBuilds, addLog (LoadedFromLocalHistory 4) emptyState)"
  by (simp add: fetchAllBuilds_def loadHistory_def historyEnv_def exampleEnv_def join_def
      historyFilename_def exampleBuilds_def exampleHistory_def addLog_def Let_def)

lemma exampleBuilds_commits: "map commit exampleBuilds = [''c4'', ''c3'', ''c2'', ''c1'']"
  by (simp add: exampleBuilds_def exampleHistory_def historyBuild_def)

lemma exampleBuilds_length: "length exampleBuilds = 4"
  by (simp add: exampleBuilds_def exampleHistory_def)

lemma not_date_shape: "\<not> dateRegex_test ''c2''" "\<not> dateRegex_test ''c4''"
  by (simp_all add: dateRegex_test_def)

lemma exampleBuilds_indexOf:
  "indexOf ''c2'' exampleBuilds = Some 2" "indexOf ''c4'' exampleBuilds = Some 0"
  by (simp_all add: exampleBuilds_def exampleHistory_def historyBuild_def)

text \<open>
  C1 (as amended). For every history of \<open>N \<ge> 2\<close> builds, \<open>fetchBuilds\<close> with no good
  reference, no bad reference and no exclusions returns the full list of \<open>N\<close> builds, in
  the newest-first order of the loaded history (the history file reversed); for \<open>N = 0\<close>
  and \<open>N = 1\<close> it fails with the error that the bad commit cannot be older or same as
  the good commit.
\<close>

theorem fetchBuilds_no_references:
  assumes "excludeCommits = None \<or> excludeCommits = Some []"
  shows "(fetchAllBuilds env runtime' quality' flavor'
             (case releasedOnly of None \<Rightarrow> False | Some r \<Rightarrow> r) useDiscovery st
           = (Inr allBuilds, st1) \<longrightarrow>
          fetchBuilds env (runtime', quality', flavor') None None releasedOnly excludeCommits
             useDiscovery st =
            (if 2 \<le> length allBuilds then (Inr allBuilds, st1)
             else (Inl (BadNotNewerThanGood None None), st1)))
       \<and> (readHistory env (join (cwd env) (historyFilename quality')) = Inr history \<and>
          2 \<le> length history \<longrightarrow>
          fst (fetchBuilds env (runtime', quality', flavor') None None releasedOnly excludeCommits
             False st) = Inr (map (historyBuild runtime' quality' flavor') (rev history)))"
proof -
  have general: "fetchBuilds env (runtime', quality', flavor') None None releasedOnly
        excludeCommits ud st =
      (if 2 \<le> length bs then (Inr bs, s1) else (Inl (BadNotNewerThanGood None None), s1))"
    if "fetchAllBuilds env runtime' quality' flavor'
          (case releasedOnly of None \<Rightarrow> False | Some r \<Rightarrow> r) ud st = (Inr bs, s1)"
    for ud bs s1
    using that assms
    by (auto simp: fetchBuilds_def buildsInRange_default resolveRef_def excludeBuilds_def)
  have "fst (fetchBuilds env (runtime', quality', flavor') None None releasedOnly excludeCommits
             False st) = Inr (map (historyBuild runtime' quality' flavor') (rev history))"
    if h: "readHistory env (join (cwd env) (historyFilename quality')) = Inr history"
      and n: "2 \<le> length history"
  proof -
    from n have "history \<noteq> []" by auto
    from general [OF fetchAllBuilds_history [OF h this]] n show ?thesis by simp
  qed
  with general show ?thesis by blast
qed

theorem fetchBuilds_no_references_witness:
  "fetchBuilds historyEnv (DesktopLocal, Stable, Default) None None None None False emptyState =
     (Inr exampleBuilds, addLog (LoadedFromLocalHistory 4) emptyState)
   \<and> fst (fetchBuilds historyEnv (DesktopLocal, Stable, Default) None None None None False
       emptyState) = Inr (map (historyBuild DesktopLocal Stable Default) (rev exampleHistory))
   \<and> map commit exampleBuilds = [''c4'', ''c3'', ''c2'', ''c1'']"
proof -
  have h: "readHistory historyEnv (join (cwd historyEnv) (historyFilename Stable)) = Inr exampleHistory"
    by (simp add: historyEnv_def exampleEnv_def join_def historyFilename_def)
  have n: "2 \<le> length exampleHistory"
    by (simp add: exampleHistory_def)
  note inst = fetchBuilds_no_references
     [of None historyEnv DesktopLocal Stable Default None False emptyState exampleBuilds
         "addLog (LoadedFromLocalHistory 4) emptyState" exampleHistory]
  from inst have "fetchBuilds historyEnv (DesktopLocal, Stable, Default) None None None None False
      emptyState = (Inr exampleBuilds, addLog (LoadedFromLocalHistory 4) emptyState)"
    by (simp add: historyEnv_fetchAll exampleBuilds_length)
  moreover from inst h n
  have "fst (fetchBuilds historyEnv (DesktopLocal, Stable, Default) None None None None False
       emptyState) = Inr (map (historyBuild DesktopLocal Stable Default) (rev exampleHistory))"
    by blast
  ultimately show ?thesis by (simp add: exampleBuilds_commits)
qed

text \<open>
  C1 as stated fails for \<open>N = 1\<close> and \<open>N = 0\<close>: with one build in the history file,
  and with an empty history file and an empty answer of the discovery query,
  \<open>fetchBuilds\<close> throws instead of returning the list.
\<close>

theorem fetchBuilds_short_history_counterexample:
  "fst (fetchBuilds
      (exampleEnv\<lparr>readHistory := (\<lambda>p. Inr [\<lparr>h_commit = ''c1'', h_date = None,
                                           h_version = None, h_assets = None\<rparr>])\<rparr>)
      (DesktopLocal, Stable, Default) None None None None False emptyState)
     = Inl (BadNotNewerThanGood None None)
   \<and> fst (fetchBuilds
      (exampleEnv\<lparr>readHistory := (\<lambda>p. Inr []), commitsAt := (\<lambda>n u. Inr [])\<rparr>)
      (DesktopLocal, Stable, Default) None None None None False emptyState)
     = Inl (BadNotNewerThanGood None None)"
  by (simp add: fetchBuilds_def fetchAllBuilds_def loadHistory_def jsonGetCommits_def
      resolveRef_def buildsInRange_default Let_def)

text \<open>
  C3. Once both references are resolved to indices, \<open>fetchBuilds\<close> fails with the error
  that names the bad and the good reference whenever the bad index is greater than or
  equal to the good index; otherwise the indices lie in the list and the range, before
  exclusion, is made of the builds at the indices from the bad one to the good one,
  both included, in the order of the list.
\<close>

theorem fetchBuilds_range:
  assumes "fetchAllBuilds env runtime' quality' flavor'
             (case releasedOnly of None \<Rightarrow> False | Some r \<Rightarrow> r) useDiscovery st
           = (Inr allBuilds, st1)"
    and "resolveRef env goodCommit allBuilds st1 = (Inr goodCommit', st2)"
    and "resolveRef env badCommit allBuilds st2 = (Inr badCommit', st3)"
    and "goodCommitIndex allBuilds goodCommit' = Inr goodIndex"
    and "badCommitIndex allBuilds badCommit' = Inr badIndex"
  shows "fetchBuilds env (runtime', quality', flavor') goodCommit badCommit releasedOnly
           excludeCommits useDiscovery st =
         (if badIndex \<ge> goodIndex then (Inl (BadNotNewerThanGood badCommit' goodCommit'), st3)
          else (case excludeBuilds excludeCommits
                       (map ((!) allBuilds) [nat badIndex ..< Suc (nat goodIndex)]) st3 of
                  (kept, st4) \<Rightarrow> (Inr kept, st4)))
       \<and> fetchBuilds env (runtime', quality', flavor') goodCommit badCommit releasedOnly
           None useDiscovery st =
         (if badIndex \<ge> goodIndex then (Inl (BadNotNewerThanGood badCommit' goodCommit'), st3)
          else (Inr (map ((!) allBuilds) [nat badIndex ..< Suc (nat goodIndex)]), st3))
       \<and> 0 \<le> badIndex \<and> goodIndex < int (length allBuilds)"
proof -
  have b: "0 \<le> badIndex" and g: "goodIndex < int (length allBuilds)"
    using assms(4,5) by (auto dest: goodCommitIndex_bound badCommitIndex_bound)
  have r: "buildsInRange allBuilds goodCommit' badCommit' =
      (if badIndex \<ge> goodIndex then Inl (BadNotNewerThanGood badCommit' goodCommit')
       else Inr (map ((!) allBuilds) [nat badIndex ..< Suc (nat goodIndex)]))"
    using assms(4,5) b g by (simp add: buildsInRange_def slice_nth)
  show ?thesis
    using assms(1-3) b g
    by (simp add: fetchBuilds_def r excludeBuilds_def)
qed

theorem fetchBuilds_range_witness:
  "fetchBuilds historyEnv (DesktopLocal, Stable, Default) (Some ''c2'') (Some ''c4'') None None
      False emptyState =
     (Inr [exampleBuilds ! 0, exampleBuilds ! 1, exampleBuilds ! 2],
      addLog (LoadedFromLocalHistory 4) emptyState)
   \<and> fetchBuilds historyEnv (DesktopLocal, Stable, Default) (Some ''c4'') (Some ''c2'') None None
      False emptyState =
     (Inl (BadNotNewerThanGood (Some ''c2'') (Some ''c4'')),
      addLog (LoadedFromLocalHistory 4) emptyState)"
proof -
  have all: "fetchAllBuilds historyEnv DesktopLocal Stable Default
      (case None of None \<Rightarrow> False | Some r \<Rightarrow> r) False emptyState =
     (Inr exampleBuilds, addLog (LoadedFromLocalHistory 4) emptyState)"
    by (simp add: historyEnv_fetchAll)
  have ref: "resolveRef historyEnv (Some ''c2'') exampleBuilds s = (Inr (Some ''c2''), s)"
    "resolveRef historyEnv (Some ''c4'') exampleBuilds s = (Inr (Some ''c4''), s)" for s
    by (simp_all add: resolveRef_def not_date_shape)
  have idx: "goodCommitIndex exampleBuilds (Some ''c2'') = Inr 2"
    "badCommitIndex exampleBuilds (Some ''c4'') = Inr 0"
    "goodCommitIndex exampleBuilds (Some ''c4'') = Inr 0"
    "badCommitIndex exampleBuilds (Some ''c2'') = Inr 2"
    by (simp_all add: goodCommitIndex_def badCommitIndex_def exampleBuilds_indexOf)
  have upt: "map ((!) exampleBuilds) [nat 0 ..< Suc (nat 2)]
      = [exampleBuilds ! 0, exampleBuilds ! 1, exampleBuilds ! 2]"
    by (simp add: upt_rec numeral_2_eq_2)
  from fetchBuilds_range [OF all ref(1) ref(2) idx(1) idx(2), of None, THEN conjunct2, THEN conjunct1]
  have a: "fetchBuilds historyEnv (DesktopLocal, Stable, Default) (Some ''c2'') (Some ''c4'') None
      None False emptyState =
     (Inr [exampleBuilds ! 0, exampleBuilds ! 1, exampleBuilds ! 2],
      addLog (LoadedFromLocalHistory 4) emptyState)"
    unfolding upt by simp
  from fetchBuilds_range [OF all ref(2) ref(1) idx(3) idx(4), of None, THEN conjunct2, THEN conjunct1]
  have b: "fetchBuilds historyEnv (DesktopLocal, Stable, Default) (Some ''c4'') (Some ''c2'') None
      None False emptyState =
     (Inl (BadNotNewerThanGood (Some ''c2'') (Some ''c4'')),
      addLog (LoadedFromLocalHistory 4) emptyState)"
    by simp
  from a b show ?thesis by (rule conjI)
qed

subsection \<open>Excluded commits\<close>

lemma fetchBuilds_exclude_split:
  "fetchBuilds env kind goodCommit badCommit releasedOnly excludeCommits useDiscovery st =
     (case fetchBuilds env kind goodCommit badCommit releasedOnly None useDiscovery st of
        (Inl e, s) \<Rightarrow> (Inl e, s)
      | (Inr ranged, s) \<Rightarrow>
          (case excludeBuilds excludeCommits ranged s of (kept, s') \<Rightarrow> (Inr kept, s')))"
  by (auto simp: fetchBuilds_def excludeBuilds_def split: prod.splits sum.splits)

lemma length_filter_commits:
  assumes "distinct (map commit bs)"
  shows "length (filter (\<lambda>build. commit build \<in> S) bs) = card (S \<inter> commit ` set bs)"
proof -
  have "length (filter (\<lambda>build. commit build \<in> S) bs)
        = length (filter (\<lambda>c. c \<in> S) (map commit bs))"
    by (simp add: filter_map comp_def)
  also have "\<dots> = card (set (filter (\<lambda>c. c \<in> S) (map commit bs)))"
    using assms distinct_card [of "filter (\<lambda>c. c \<in> S) (map commit bs)"]
    by (simp only: distinct_filter)
  also have "set (filter (\<lambda>c. c \<in> S) (map commit bs)) = S \<inter> commit ` set bs"
    by auto
  finally show ?thesis .
qed

lemma length_filter_excluded:
  assumes "distinct (map commit bs)"
  shows "length (filter (\<lambda>build. commit build \<notin> S) bs) = length bs - card (S \<inter> commit ` set bs)"
  using sum_length_filter_compl [of "\<lambda>build. commit build \<in> S" bs]
    length_filter_commits [OF assms, of S]
  by simp

lemma card_le_length_commits:
  assumes "distinct (map commit bs)"
  shows "card (S \<inter> commit ` set bs) \<le> length bs"
  using length_filter_commits [OF assms, of S] length_filter_le [of "\<lambda>build. commit build \<in> S" bs]
  by simp

lemma excludeBuilds_distinct:
  assumes "distinct (map commit ranged)"
  shows "excludeBuilds (Some ex) ranged st =
           (filter (\<lambda>build. commit build \<notin> set ex) ranged,
            if card (set ex \<inter> commit ` set ranged) = 0 then st
            else addLog (ExcludedCommits (card (set ex \<inter> commit ` set ranged))) st)"
proof (cases "ex = []")
  case True
  then show ?thesis by (simp add: excludeBuilds_def)
next
  case False
  have len: "length (filter (\<lambda>build. commit build \<notin> set ex) ranged)
      = length ranged - card (set ex \<inter> commit ` set ranged)"
    by (rule length_filter_excluded [OF assms])
  have le: "card (set ex \<inter> commit ` set ranged) \<le> length ranged"
    by (rule card_le_length_commits [OF assms])
  show ?thesis
  proof (cases "card (set ex \<inter> commit ` set ranged) = 0")
    case True
    with False len show ?thesis by (simp add: excludeBuilds_def Let_def)
  next
    case nz: False
    with le have "length ranged - card (set ex \<inter> commit ` set ranged) \<noteq> length ranged"
      by arith
    with False len le nz show ?thesis
      by (simp add: excludeBuilds_def Let_def addLog_def)
  qed
qed

text \<open>
  C9. When the commits of the computed range are distinct, \<open>fetchBuilds\<close> with a list of
  excluded commits returns the range without the builds of these commits: the length
  goes down by the number of excluded commits that are in the range, so by one for one
  excluded commit of the range and by nothing for a commit outside it. The only other
  effect is one log line with the number removed, when it is not zero; and exclusion
  raises no error: \<open>fetchBuilds\<close> fails with the exclusions exactly as without them.
\<close>

theorem fetchBuilds_exclude:
  "(fetchBuilds env kind goodCommit badCommit releasedOnly None useDiscovery st = (Inr ranged, st')
      \<and> distinct (map commit ranged) \<longrightarrow>
    fetchBuilds env kind goodCommit badCommit releasedOnly (Some ex) useDiscovery st =
      (Inr (filter (\<lambda>build. commit build \<notin> set ex) ranged),
       if card (set ex \<inter> commit ` set ranged) = 0 then st'
       else addLog (ExcludedCommits (card (set ex \<inter> commit ` set ranged))) st')
    \<and> length (filter (\<lambda>build. commit build \<notin> set ex) ranged)
        = length ranged - card (set ex \<inter> commit ` set ranged)
    \<and> (c \<in> commit ` set ranged \<longrightarrow>
        length (filter (\<lambda>build. commit build \<notin> set [c]) ranged) = length ranged - 1
        \<and> 1 \<le> length ranged)
    \<and> (c \<notin> commit ` set ranged \<longrightarrow>
        length (filter (\<lambda>build. commit build \<notin> set [c]) ranged) = length ranged))
   \<and> (fetchBuilds env kind goodCommit badCommit releasedOnly None useDiscovery st = (Inl e, st')
      \<longrightarrow> fetchBuilds env kind goodCommit badCommit releasedOnly (Some ex) useDiscovery st
            = (Inl e, st'))"
proof -
  have err: "fetchBuilds env kind goodCommit badCommit releasedOnly (Some ex) useDiscovery st
            = (Inl e, st')"
    if "fetchBuilds env kind goodCommit badCommit releasedOnly None useDiscovery st = (Inl e, st')"
    using that by (subst fetchBuilds_exclude_split) simp
  have ok: "fetchBuilds env kind goodCommit badCommit releasedOnly (Some ex) useDiscovery st =
      (Inr (filter (\<lambda>build. commit build \<notin> set ex) ranged),
       if card (set ex \<inter> commit ` set ranged) = 0 then st'
       else addLog (ExcludedCommits (card (set ex \<inter> commit ` set ranged))) st')"
    if "fetchBuilds env kind goodCommit badCommit releasedOnly None useDiscovery st = (Inr ranged, st')"
      and "distinct (map commit ranged)"
    using that by (subst fetchBuilds_exclude_split) (simp add: excludeBuilds_distinct)
  have one: "length (filter (\<lambda>build. commit build \<notin> set [c]) ranged) = length ranged - 1
        \<and> 1 \<le> length ranged"
    if "distinct (map commit ranged)" "c \<in> commit ` set ranged"
  proof -
    from that(2) have "set [c] \<inter> commit ` set ranged = {c}" by auto
    with length_filter_excluded [OF that(1), of "set [c]"] card_le_length_commits [OF that(1), of "set [c]"]
    show ?thesis by simp
  qed
  have none: "length (filter (\<lambda>build. commit build \<notin> set [c]) ranged) = length ranged"
    if "c \<notin> commit ` set ranged"
    using that by (induction ranged) auto
  show ?thesis
    using err ok one none length_filter_excluded [of ranged "set ex"] by blast
qed

theorem fetchBuilds_exclude_witness:
  "distinct (map commit exampleBuilds)
   \<and> fetchBuilds historyEnv (DesktopLocal, Stable, Default) None None None
        (Some [''c3'', ''zz'']) False emptyState =
      (Inr [exampleBuilds ! 0, exampleBuilds ! 2, exampleBuilds ! 3],
       addLog (ExcludedCommits 1) (addLog (LoadedFromLocalHistory 4) emptyState))
   \<and> fetchBuilds historyEnv (DesktopLocal, Stable, Default) (Some ''c9'') None None
        (Some [''c3'', ''zz'']) False emptyState =
      (Inl (GoodCommitNotFound ''c9''), addLog (LoadedFromLocalHistory 4) emptyState)"
proof -
  have d: "distinct (map commit exampleBuilds)"
    by (simp add: exampleBuilds_commits)
  have plain: "fetchBuilds historyEnv (DesktopLocal, Stable, Default) None None None None False
      emptyState = (Inr exampleBuilds, addLog (LoadedFromLocalHistory 4) emptyState)"
    by (simp add: fetchBuilds_def historyEnv_fetchAll resolveRef_def buildsInRange_default
        exampleBuilds_length excludeBuilds_def)
  have c9: "\<not> dateRegex_test ''c9''"
    by (simp add: dateRegex_test_def)
  have no: "indexOf ''c9'' exampleBuilds = None"
    by (simp add: exampleBuilds_def exampleHistory_def historyBuild_def)
  have failing: "fetchBuilds historyEnv (DesktopLocal, Stable, Default) (Some ''c9'') None None None
      False emptyState =
      (Inl (GoodCommitNotFound ''c9''), addLog (LoadedFromLocalHistory 4) emptyState)"
    by (simp add: fetchBuilds_def historyEnv_fetchAll resolveRef_def c9 buildsInRange_def
        goodCommitIndex_def no)
  have img: "commit ` set exampleBuilds = {''c4'', ''c3'', ''c2'', ''c1''}"
    using exampleBuilds_commits by (metis list.set_map list.simps(15) empty_set)
  have card: "card (set [''c3'', ''zz''] \<inter> commit ` set exampleBuilds) = 1"
    by (simp add: img)
  have kept: "filter (\<lambda>build. commit build \<notin> set [''c3'', ''zz'']) exampleBuilds
      = [exampleBuilds ! 0, exampleBuilds ! 2, exampleBuilds ! 3]"
    by (simp add: exampleBuilds_def exampleHistory_def historyBuild_def)
  from fetchBuilds_exclude [of historyEnv "(DesktopLocal, Stable, Default)" None None None False
      emptyState exampleBuilds "addLog (LoadedFromLocalHistory 4) emptyState"
      "[''c3'', ''zz'']", THEN conjunct1, THEN mp, OF conjI [OF plain d], THEN conjunct1]
  have a: "fetchBuilds historyEnv (DesktopLocal, Stable, Default) None None None
        (Some [''c3'', ''zz'']) False emptyState =
      (Inr [exampleBuilds ! 0, exampleBuilds ! 2, exampleBuilds ! 3],
       addLog (ExcludedCommits 1) (addLog (LoadedFromLocalHistory 4) emptyState))"
    unfolding card kept by simp
  from fetchBuilds_exclude [of historyEnv "(DesktopLocal, Stable, Default)" "Some ''c9''" None
      None False emptyState _ "addLog (LoadedFromLocalHistory 4) emptyState" _ _
      "GoodCommitNotFound ''c9''", THEN conjunct2, THEN mp, OF failing]
  have b: "fetchBuilds historyEnv (DesktopLocal, Stable, Default) (Some ''c9'') None None
        (Some [''c3'', ''zz'']) False emptyState =
      (Inl (GoodCommitNotFound ''c9''), addLog (LoadedFromLocalHistory 4) emptyState)" .
  from d a b show ?thesis by (intro conjI)
qed


subsection \<open>Rounding to a double\<close>

lemma roundHalfEven_near:
  assumes "\<bar>q - of_int m\<bar> < 1 / 2"
  shows "roundHalfEven q = m"
proof -
  have "\<lfloor>q\<rfloor> = m \<or> \<lfloor>q\<rfloor> = m - 1"
    using assms by (auto simp: floor_eq_iff abs_less_iff)
  then show ?thesis
  proof
    assume f: "\<lfloor>q\<rfloor> = m"
    from assms have "q - of_int m < 1 / 2" by linarith
    with f show ?thesis by (simp add: roundHalfEven_def Let_def)
  next
    assume f: "\<lfloor>q\<rfloor> = m - 1"
    then have "q < of_int m" by (simp add: floor_eq_iff)
    with assms have "1 / 2 < q - of_int (m - 1)" by simp
    with f show ?thesis by (simp add: roundHalfEven_def Let_def)
  qed
qed

lemma binadeFrom_eq:
  assumes "- 1022 \<le> e" and "e \<le> int k - 1022" and "2 powi e \<le> a" and "a < 2 powi (e + 1)"
  shows "binadeFrom k a = e"
  using assms
proof (induction k)
  case 0
  then show ?case by simp
next
  case (Suc k)
  show ?case
  proof (cases "e = int (Suc k) - 1022")
    case True
    with Suc.prems(3) show ?thesis by simp
  next
    case False
    with Suc.prems(2) have le: "e \<le> int k - 1022" by simp
    then have "e + 1 \<le> int (Suc k) - 1022" by simp
    then have "(2::real) powi (e + 1) \<le> 2 powi (int (Suc k) - 1022)"
      by (intro power_int_increasing) simp_all
    with Suc.prems(4) have "\<not> 2 powi (int (Suc k) - 1022) \<le> a" by simp
    with Suc.IH [OF Suc.prems(1) le Suc.prems(3,4)] show ?thesis by simp
  qed
qed

lemma doubleOf_near:
  assumes e: "- 1022 \<le> e" "e \<le> 1023"
    and a: "2 powi e \<le> \<bar>x\<bar>" "\<bar>x\<bar> < 2 powi (e + 1)"
    and m: "\<bar>\<bar>x\<bar> / 2 powi (e - 52) - of_int m\<bar> < 1 / 2"
    and r: "of_int m * 2 powi (e - 52) < (2::real) ^ 1024"
  shows "doubleOf x = Finite ((if 0 < x then 1 else - 1) * (of_int m * 2 powi (e - 52)))"
proof -
  have b: "binadeFrom 2046 \<bar>x\<bar> = e"
    using e a by (intro binadeFrom_eq) simp_all
  have "(0::real) < \<bar>x\<bar>"
    by (rule less_le_trans [OF _ a(1)]) simp
  then have "x \<noteq> 0" by simp
  have rh: "roundHalfEven (\<bar>x\<bar> / 2 powi (e - 52)) = m"
    by (rule roundHalfEven_near [OF m])
  from \<open>x \<noteq> 0\<close> r show ?thesis
    unfolding doubleOf_def Let_def b rh by simp
qed

lemma doubleOf_int:
  assumes "\<bar>k\<bar> \<le> 2 ^ 53"
  shows "doubleOf (of_int k) = Finite (of_int k)"
proof (cases "k = 0")
  case True
  then show ?thesis by (simp add: doubleOf_def)
next
  case False
  define n where "n = nat \<bar>k\<bar>"
  have n1: "1 \<le> n" and nk: "int n = \<bar>k\<bar>" and n53: "n \<le> 2 ^ 53"
    using False assms by (auto simp: n_def nat_le_iff)
  from ex_power_ivl1 [of 2 n] n1 obtain e where e: "2 ^ e \<le> n" "n < 2 ^ (e + 1)"
    by auto
  from e(1) n53 have "(2::nat) ^ e \<le> 2 ^ 53" by (rule order_trans)
  then have e53: "e \<le> 53" by (rule power_le_imp_le_exp [rotated]) simp
  have ax: "\<bar>of_int k :: real\<bar> = of_nat n"
    using nk by (metis of_int_abs of_int_of_nat_eq)
  have lo: "(2::real) powi int e \<le> \<bar>of_int k\<bar>"
    using e(1) unfolding ax power_int_of_nat by (metis of_nat_le_iff of_nat_numeral of_nat_power)
  have hi: "\<bar>of_int k :: real\<bar> < 2 powi (int e + 1)"
  proof -
    have "(of_nat n :: real) < of_nat (2 ^ (e + 1))" using e(2) by (simp only: of_nat_less_iff)
    also have "\<dots> = 2 powi (int e + 1)"
      by (simp add: power_int_add)
    finally show ?thesis unfolding ax .
  qed
  have scaled: "of_nat n = of_int m * (2::real) powi (int e - 52) \<and>
      \<bar>of_nat n / 2 powi (int e - 52) - of_int m\<bar> < (1::real) / 2" if
    "m = (if e \<le> 52 then int n * 2 ^ (52 - e) else 2 ^ 52)" for m
  proof (cases "e \<le> 52")
    case True
    then have p: "(2::real) powi (int e - 52) = inverse (2 ^ (52 - e))"
      by (simp add: power_int_def nat_diff_distrib' power_one_over inverse_eq_divide)
    from True that have "m = int n * 2 ^ (52 - e)" by simp
    then show ?thesis by (simp add: p field_simps)
  next
    case False
    with e53 have e': "e = 53" by simp
    with e(1) n53 have "n = 2 ^ 53" by simp
    moreover from False that have "m = 2 ^ 52" by simp
    ultimately show ?thesis by (simp add: e')
  qed
  define m where "m = (if e \<le> 52 then int n * 2 ^ (52 - e) else 2 ^ 52)"
  note sc = scaled [OF m_def]
  have r: "of_int m * 2 powi (int e - 52) < (2::real) ^ 1024"
  proof -
    have "(of_nat n :: real) \<le> 2 ^ 53" using n53
      by (metis of_nat_le_iff of_nat_numeral of_nat_power)
    also have "\<dots> < 2 ^ 1024" by (rule power_strict_increasing) simp_all
    finally show ?thesis using sc by simp
  qed
  have "doubleOf (of_int k) =
      Finite ((if 0 < (of_int k :: real) then 1 else - 1) * (of_int m * 2 powi (int e - 52)))"
    using e53 lo hi sc r by (intro doubleOf_near) (simp_all add: ax)
  also have "(if 0 < (of_int k :: real) then 1 else - 1) * (of_int m * (2::real) powi (int e - 52))
      = of_int k"
    using sc ax False by (auto simp: abs_if split: if_splits)
  finally show ?thesis .
qed

lemma doubleOf_MAX_VALUE:
  assumes "\<bar>d\<bar> < 2 ^ 970"
  shows "doubleOf (MAX_VALUE + d) = Finite MAX_VALUE"
proof -
  have p: "(2::real) ^ 1024 = 2 ^ 53 * 2 ^ 971" "(2::real) ^ 1023 = 2 ^ 52 * 2 ^ 971"
    "(2::real) ^ 971 = 2 * 2 ^ 970"
    by (simp_all flip: power_add)
  have pos: "(0::real) < 2 ^ 970" by simp
  have mv: "MAX_VALUE = (2 ^ 53 - 1) * 2 ^ 971"
    by (simp add: MAX_VALUE_def p(1) algebra_simps)
  have x: "0 < MAX_VALUE + d" "\<bar>MAX_VALUE + d\<bar> = MAX_VALUE + d"
    using assms pos unfolding mv p(3) by (auto simp: abs_less_iff algebra_simps)
  have lo: "(2::real) powi 1023 \<le> \<bar>MAX_VALUE + d\<bar>"
    unfolding x(2) using assms pos
    by (simp add: mv p abs_less_iff algebra_simps)
  have hi: "\<bar>MAX_VALUE + d\<bar> < (2::real) powi (1023 + 1)"
    unfolding x(2) using assms pos
    by (simp add: mv p abs_less_iff algebra_simps)
  have q: "\<bar>MAX_VALUE + d\<bar> / 2 powi (1023 - 52) = of_int (2 ^ 53 - 1) + d / 2 ^ 971"
    unfolding x(2) by (simp add: mv field_simps)
  have near: "\<bar>\<bar>MAX_VALUE + d\<bar> / 2 powi (1023 - 52) - of_int (2 ^ 53 - 1)\<bar> < 1 / 2"
    unfolding q using assms pos by (simp add: p(3) abs_less_iff field_simps)
  have r: "of_int (2 ^ 53 - 1) * 2 powi (1023 - 52) < (2::real) ^ 1024"
    using pos by (simp add: p algebra_simps)
  from doubleOf_near [OF _ _ lo hi near r] x(1)
  show ?thesis by (simp add: mv)
qed


subsection \<open>Date references\<close>

lemma jsAbs_not_negative: "jsAbs x \<noteq> NegInfinity"
  by (cases x) simp_all

lemma jsLess_Finite:
  "jsLess x (Finite m) \<longleftrightarrow> x = NegInfinity \<or> (\<exists>d. x = Finite d \<and> d < m)"
  by (cases x) simp_all

lemma timeDiff_less:
  "jsLess (timeDiff env target build) (Finite m) \<longleftrightarrow>
     (\<exists>d. timeDiff env target build = Finite d \<and> d < m)"
  using jsAbs_not_negative [of "jsMinus (buildTime env (date build)) target"]
  by (simp add: jsLess_Finite timeDiff_def)

lemma selectable_candidate:
  "selectable env target build \<longleftrightarrow> (\<exists>d. candidateDiff env target build = Some d)"
  by (auto simp: selectable_def candidateDiff_def timeDiff_less split: JSNumber.splits)

lemma candidateDiff_timeDiff:
  "candidateDiff env target build = Some d \<Longrightarrow> timeDiff env target build = Finite d"
  by (auto simp: candidateDiff_def split: if_splits JSNumber.splits)

lemma candidateDiff_less: "candidateDiff env target b = Some d \<Longrightarrow> d < MAX_VALUE"
  by (auto simp: candidateDiff_def split: if_splits JSNumber.splits)

lemma candidateDiff_no_date: "date b = None \<Longrightarrow> candidateDiff env target b = None"
  by (simp add: candidateDiff_def truthyDate_def)

lemma considerBuild_candidate:
  assumes "snd acc = Finite m" and "m \<le> MAX_VALUE"
  shows "considerBuild env target acc build =
     (case candidateDiff env target build of
        None \<Rightarrow> acc
      | Some d \<Rightarrow> if d < m then (Some build, Finite d) else acc)"
  using assms
  by (auto simp: considerBuild_def candidateDiff_def timeDiff_less split: JSNumber.splits)

lemma firstMinimumAt_snoc_keep:
  assumes "firstMinimumAt env target xs i m"
    and "\<And>d. candidateDiff env target x = Some d \<Longrightarrow> \<not> d < m"
  shows "firstMinimumAt env target (xs @ [x]) i m"
  using assms by (auto simp: firstMinimumAt_def nth_append less_Suc_eq not_less)

lemma firstMinimumAt_snoc_new:
  assumes "candidateDiff env target x = Some d"
    and "\<And>j d'. j < length xs \<Longrightarrow> candidateDiff env target (xs ! j) = Some d' \<Longrightarrow> d < d'"
  shows "firstMinimumAt env target (xs @ [x]) (length xs) d"
  using assms by (auto simp: firstMinimumAt_def nth_append less_Suc_eq dest: less_imp_le)

lemma scan_invariant:
  "foldl (considerBuild env target) (None, Finite MAX_VALUE) bs = (best, minDiff) \<Longrightarrow>
     (best = None \<and> minDiff = Finite MAX_VALUE \<and>
      (\<forall>b \<in> set bs. candidateDiff env target b = None))
   \<or> (\<exists>i m. best = Some (bs ! i) \<and> minDiff = Finite m \<and> firstMinimumAt env target bs i m)"
proof (induction bs arbitrary: best minDiff rule: rev_induct)
  case Nil
  then show ?case by simp
next
  case (snoc x xs)
  obtain best0 minDiff0 where
    acc: "foldl (considerBuild env target) (None, Finite MAX_VALUE) xs = (best0, minDiff0)"
    by (cases "foldl (considerBuild env target) (None, Finite MAX_VALUE) xs")
  note ih = snoc.IH [OF acc]
  have "\<exists>m0. minDiff0 = Finite m0 \<and> m0 \<le> MAX_VALUE"
    using ih
  proof
    assume "best0 = None \<and> minDiff0 = Finite MAX_VALUE \<and>
      (\<forall>b\<in>set xs. candidateDiff env target b = None)"
    then show ?thesis by simp
  next
    assume "\<exists>i m. best0 = Some (xs ! i) \<and> minDiff0 = Finite m \<and>
      firstMinimumAt env target xs i m"
    then obtain i m where "minDiff0 = Finite m" "candidateDiff env target (xs ! i) = Some m"
      by (auto simp: firstMinimumAt_def)
    with candidateDiff_less [of env target "xs ! i" m] show ?thesis by simp
  qed
  then obtain m0 where m0: "minDiff0 = Finite m0" "m0 \<le> MAX_VALUE" by blast
  have step: "(best, minDiff) =
      (case candidateDiff env target x of
         None \<Rightarrow> (best0, minDiff0)
       | Some d \<Rightarrow> if d < m0 then (Some x, Finite d) else (best0, minDiff0))"
    using snoc.prems acc considerBuild_candidate [of "(best0, minDiff0)" m0 env target x] m0
    by (auto split: option.splits if_splits)
  show ?case
  proof (cases "\<exists>d. candidateDiff env target x = Some d \<and> d < m0")
    case True
    then obtain d where d: "candidateDiff env target x = Some d" "d < m0" by blast
    with step have eq: "best = Some x" "minDiff = Finite d" by simp_all
    have "d < d'" if "j < length xs" "candidateDiff env target (xs ! j) = Some d'" for j d'
    proof -
      from ih show ?thesis
      proof
        assume "best0 = None \<and> minDiff0 = Finite MAX_VALUE \<and>
          (\<forall>b\<in>set xs. candidateDiff env target b = None)"
        then have "candidateDiff env target (xs ! j) = None"
          using that(1) by simp
        with that(2) show ?thesis by simp
      next
        assume "\<exists>i m. best0 = Some (xs ! i) \<and> minDiff0 = Finite m \<and>
          firstMinimumAt env target xs i m"
        with that m0(1) have "m0 \<le> d'" by (auto simp: firstMinimumAt_def)
        with d(2) show ?thesis by simp
      qed
    qed
    from firstMinimumAt_snoc_new [OF d(1) this] eq
    have "best = Some ((xs @ [x]) ! length xs) \<and> minDiff = Finite d \<and>
        firstMinimumAt env target (xs @ [x]) (length xs) d"
      by simp
    then show ?thesis by blast
  next
    case False
    with step have eq: "best = best0" "minDiff = minDiff0"
      by (auto split: option.splits if_splits)
    from ih show ?thesis
    proof
      assume a: "best0 = None \<and> minDiff0 = Finite MAX_VALUE \<and>
        (\<forall>b\<in>set xs. candidateDiff env target b = None)"
      with m0(1) have "m0 = MAX_VALUE" by simp
      with False candidateDiff_less [of env target x] have "candidateDiff env target x = None"
        by (cases "candidateDiff env target x") auto
      with a eq show ?thesis by simp
    next
      assume "\<exists>i m. best0 = Some (xs ! i) \<and> minDiff0 = Finite m \<and>
        firstMinimumAt env target xs i m"
      with m0(1) obtain i where
        i: "best0 = Some (xs ! i)" "firstMinimumAt env target xs i m0" by auto
      from i(2) have "i < length xs" by (simp add: firstMinimumAt_def)
      moreover from False have "\<And>d. candidateDiff env target x = Some d \<Longrightarrow> \<not> d < m0" by blast
      from firstMinimumAt_snoc_keep [OF i(2) this]
      have "firstMinimumAt env target (xs @ [x]) i m0" .
      ultimately have "best = Some ((xs @ [x]) ! i) \<and> minDiff = Finite m0 \<and>
          firstMinimumAt env target (xs @ [x]) i m0"
        using i(1) eq m0(1) by (simp add: nth_append)
      then show ?thesis by blast
    qed
  qed
qed

lemma firstMinimumAt_firstMinimum:
  assumes "firstMinimumAt env target bs i m"
  shows "firstMinimum env target bs i"
  unfolding firstMinimum_def
proof (intro conjI allI impI)
  from assms show "i < length bs" by (simp add: firstMinimumAt_def)
  from assms have ci: "candidateDiff env target (bs ! i) = Some m"
    by (simp add: firstMinimumAt_def)
  then show "selectable env target (bs ! i)" by (simp add: selectable_candidate)
  fix j
  assume j: "j < length bs" and "selectable env target (bs ! j)"
  then obtain d where d: "candidateDiff env target (bs ! j) = Some d"
    by (auto simp: selectable_candidate)
  with assms j have md: "m \<le> d" "j < i \<longrightarrow> m < d"
    by (auto simp: firstMinimumAt_def)
  from md(1) show "\<not> jsLess (timeDiff env target (bs ! j)) (timeDiff env target (bs ! i))"
    by (simp add: candidateDiff_timeDiff [OF ci] candidateDiff_timeDiff [OF d])
  assume "j < i"
  with md(2) show "jsLess (timeDiff env target (bs ! i)) (timeDiff env target (bs ! j))"
    by (simp add: candidateDiff_timeDiff [OF ci] candidateDiff_timeDiff [OF d])
qed

lemma firstMinimum_unique:
  assumes "firstMinimum env target bs i" and "firstMinimum env target bs i'"
  shows "i = i'"
proof -
  have "\<not> a < b" if "firstMinimum env target bs a" "firstMinimum env target bs b" for a b
  proof
    assume "a < b"
    with that(2) have "jsLess (timeDiff env target (bs ! b)) (timeDiff env target (bs ! a))"
      using that(1) by (auto simp: firstMinimum_def)
    moreover from that have "\<not> jsLess (timeDiff env target (bs ! b)) (timeDiff env target (bs ! a))"
      by (auto simp: firstMinimum_def)
    ultimately show False by simp
  qed
  from this [OF assms] this [OF assms(2) assms(1)] show ?thesis by simp
qed

lemma resolveDateToBuild_scan:
  "resolveDateToBuild env dateStr builds st =
     (case fst (foldl (considerBuild env (targetTimeOf env dateStr)) (None, Finite MAX_VALUE)
                  builds) of
        Some best \<Rightarrow>
          (case isoTime env (date best) of
             None \<Rightarrow> (Inl RangeError, st)
           | Some t \<Rightarrow>
               (Inr (commit best), addLog (ResolvedDate dateStr (versionOrCommit best) t) st))
      | None \<Rightarrow> (Inl (CouldNotResolveDate dateStr), st))"
  by (simp add: resolveDateToBuild_def Let_def addLog_def split: prod.splits option.splits)

lemma resolveDateToBuild_none:
  assumes "\<forall>b \<in> set builds. \<not> selectable env (targetTimeOf env dateStr) b"
  shows "resolveDateToBuild env dateStr builds st = (Inl (CouldNotResolveDate dateStr), st)"
proof -
  obtain best minDiff where
    scan: "foldl (considerBuild env (targetTimeOf env dateStr)) (None, Finite MAX_VALUE) builds
      = (best, minDiff)"
    by (cases "foldl (considerBuild env (targetTimeOf env dateStr)) (None, Finite MAX_VALUE) builds")
  from scan_invariant [OF scan] assms have "best = None"
    by (auto simp: selectable_candidate firstMinimumAt_def)
  with scan show ?thesis by (simp add: resolveDateToBuild_scan)
qed

lemma resolveDateToBuild_some:
  assumes "\<exists>b \<in> set builds. selectable env (targetTimeOf env dateStr) b"
  shows "\<exists>i. firstMinimum env (targetTimeOf env dateStr) builds i \<and>
          resolveDateToBuild env dateStr builds st =
            (case isoTime env (date (builds ! i)) of
               None \<Rightarrow> (Inl RangeError, st)
             | Some t \<Rightarrow>
                 (Inr (commit (builds ! i)),
                  addLog (ResolvedDate dateStr (versionOrCommit (builds ! i)) t) st))"
proof -
  obtain best minDiff where
    scan: "foldl (considerBuild env (targetTimeOf env dateStr)) (None, Finite MAX_VALUE) builds
      = (best, minDiff)"
    by (cases "foldl (considerBuild env (targetTimeOf env dateStr)) (None, Finite MAX_VALUE) builds")
  from scan_invariant [OF scan] assms obtain i m where
    i: "best = Some (builds ! i)" "firstMinimumAt env (targetTimeOf env dateStr) builds i m"
    by (auto simp: selectable_candidate)
  from scan i(1) have "resolveDateToBuild env dateStr builds st =
            (case isoTime env (date (builds ! i)) of
               None \<Rightarrow> (Inl RangeError, st)
             | Some t \<Rightarrow>
                 (Inr (commit (builds ! i)),
                  addLog (ResolvedDate dateStr (versionOrCommit (builds ! i)) t) st))"
    by (simp add: resolveDateToBuild_scan)
  with firstMinimumAt_firstMinimum [OF i(2)] show ?thesis by blast
qed

lemma selectable_cases:
  "selectable env target build =
     (case date build of
        None \<Rightarrow> False
      | Some (DateNumber n) \<Rightarrow>
          n \<noteq> Finite 0 \<and> n \<noteq> NaN \<and> jsLess (jsAbs (jsMinus n target)) (Finite MAX_VALUE)
      | Some (DateString s) \<Rightarrow>
          s \<noteq> [] \<and>
          jsLess (jsAbs (jsMinus (timeNumber (parseDate env s)) target)) (Finite MAX_VALUE))"
  by (simp add: selectable_def truthyDate_def timeDiff_def buildTime_def
      split: option.splits BuildDate.splits)

lemma MAX_VALUE_big: "2 ^ 53 < MAX_VALUE"
proof -
  have "(2::real) ^ 1024 = 2 ^ 53 * 2 ^ 971" by (simp flip: power_add)
  then have "MAX_VALUE = (2 ^ 53 - 1) * 2 ^ 971"
    by (simp add: MAX_VALUE_def algebra_simps)
  moreover have "(2::real) ^ 53 = 2 ^ 53 * 1" by simp
  moreover have "(2::real) ^ 53 * 1 < (2 ^ 53 - 1) * 2 ^ 971"
  proof -
    have "(2::real) ^ 2 \<le> 2 ^ 971" by (rule power_increasing) simp_all
    then have "(2 ^ 53 - 1) * (2::real) ^ 2 \<le> (2 ^ 53 - 1) * 2 ^ 971"
      by (intro mult_left_mono) simp_all
    moreover have "(2::real) ^ 53 * 1 < (2 ^ 53 - 1) * 2 ^ 2" by simp
    ultimately show ?thesis by (rule less_le_trans [rotated])
  qed
  ultimately show ?thesis by simp
qed

lemma candidateDiff_whole:
  assumes "truthyDate (date b)"
    and "buildTime env (date b) = Finite x"
    and "x - t = of_int k"
    and "\<bar>k\<bar> \<le> 2 ^ 53"
  shows "candidateDiff env (Finite t) b = Some (of_int \<bar>k\<bar>)"
proof -
  have "timeDiff env (Finite t) b = Finite (of_int \<bar>k\<bar>)"
    by (simp add: timeDiff_def assms(2,3) doubleOf_int [OF assms(4)])
  moreover have "(of_int \<bar>k\<bar> :: real) \<le> 2 ^ 53"
    using assms(4) by (metis of_int_le_iff of_int_numeral of_int_power)
  with MAX_VALUE_big have "(of_int \<bar>k\<bar> :: real) < MAX_VALUE" by simp
  ultimately show ?thesis
    using assms(1) by (simp add: candidateDiff_def)
qed

lemma targetTime_example: "targetTimeOf exampleEnv ''15-03-2023'' = Finite 1678838400000"
  by (simp add: targetTimeOf_def Number_def element_def isDigit_def digitValue_def exampleEnv_def
      utcDate_def Let_def)

lemma exampleBuilds_dates:
  "date (exampleBuilds ! 0) = Some (DateString ''2023-04-01T00:00:00.000Z'')"
  "date (exampleBuilds ! Suc 0) = None"
  "date (exampleBuilds ! 2) = Some (DateNumber (Finite 1679011200000))"
  "date (exampleBuilds ! 3) = Some (DateNumber (Finite 1678752000000))"
  by (simp_all add: exampleBuilds_def exampleHistory_def historyBuild_def)

lemma exampleBuilds_candidates:
  "candidateDiff exampleEnv (Finite 1678838400000) (exampleBuilds ! 0) = Some 1468800000"
  "candidateDiff exampleEnv (Finite 1678838400000) (exampleBuilds ! Suc 0) = None"
  "candidateDiff exampleEnv (Finite 1678838400000) (exampleBuilds ! 2) = Some 172800000"
  "candidateDiff exampleEnv (Finite 1678838400000) (exampleBuilds ! 3) = Some 86400000"
proof -
  show "candidateDiff exampleEnv (Finite 1678838400000) (exampleBuilds ! 0) = Some 1468800000"
    using candidateDiff_whole [of "exampleBuilds ! 0" exampleEnv 1680307200000 1678838400000
        1468800000]
    by (simp add: exampleBuilds_dates truthyDate_def buildTime_def timeNumber_def exampleEnv_def)
  show "candidateDiff exampleEnv (Finite 1678838400000) (exampleBuilds ! Suc 0) = None"
    by (simp add: candidateDiff_no_date exampleBuilds_dates)
  show "candidateDiff exampleEnv (Finite 1678838400000) (exampleBuilds ! 2) = Some 172800000"
    using candidateDiff_whole [of "exampleBuilds ! 2" exampleEnv 1679011200000 1678838400000
        172800000]
    by (simp add: exampleBuilds_dates truthyDate_def buildTime_def)
  show "candidateDiff exampleEnv (Finite 1678838400000) (exampleBuilds ! 3) = Some 86400000"
    using candidateDiff_whole [of "exampleBuilds ! 3" exampleEnv 1678752000000 1678838400000
        "- 86400000"]
    by (simp add: exampleBuilds_dates truthyDate_def buildTime_def)
qed

lemma exampleBuilds_firstMinimum:
  "firstMinimum exampleEnv (Finite 1678838400000) exampleBuilds 3"
proof -
  have "firstMinimumAt exampleEnv (Finite 1678838400000) exampleBuilds 3 86400000"
    unfolding firstMinimumAt_def
  proof (intro conjI allI impI)
    show "3 < length exampleBuilds" by (simp add: exampleBuilds_length)
    show "candidateDiff exampleEnv (Finite 1678838400000) (exampleBuilds ! 3) = Some 86400000"
      by (rule exampleBuilds_candidates)
    fix j d
    assume j: "j < length exampleBuilds"
      and d: "candidateDiff exampleEnv (Finite 1678838400000) (exampleBuilds ! j) = Some d"
    from j consider "j = 0" | "j = 1" | "j = 2" | "j = 3"
      unfolding exampleBuilds_length by arith
    then show "86400000 \<le> d" using d by cases (simp_all add: exampleBuilds_candidates)
    assume "j < 3"
    then consider "j = 0" | "j = 1" | "j = 2" by arith
    then show "86400000 < d" using d by cases (simp_all add: exampleBuilds_candidates)
  qed
  then show ?thesis by (rule firstMinimumAt_firstMinimum)
qed

lemma doubleOf_below_MAX_VALUE: "doubleOf (MAX_VALUE - 1678838400000) = Finite MAX_VALUE"
  using doubleOf_MAX_VALUE [of "- 1678838400000"] by simp

text \<open>
  C4 (as amended). A reference of the shape \<open>DD-MM-YYYY\<close> is parsed to a point in
  time, the local date of its year, month and day. The builds that the loop can select
  are those whose date is truthy (present, not the number \<open>0\<close>, not the empty string)
  and whose distance \<open>Math.abs(buildTime - targetTime)\<close> is a number below
  \<open>Number.MAX_VALUE\<close>. Among them the first one at the minimum distance is selected,
  and its commit is returned, with one log line, when the selected date is a valid date
  for that line. When no build can be selected, and so when no build has a date at all,
  the resolution fails with the error that the date could not be resolved to any build.
\<close>

theorem resolveDateToBuild_nearest:
  "(dateRegex_test dateStr \<longrightarrow>
      (\<exists>day month year.
         map Number (splitOn CHR ''-'' dateStr) = [Some day, Some month, Some year] \<and>
         targetTimeOf env dateStr = Finite (of_int (localDate env year (month - 1) day))))
   \<and> (selectable env (targetTimeOf env dateStr) build =
       (case date build of
          None \<Rightarrow> False
        | Some (DateNumber n) \<Rightarrow>
            n \<noteq> Finite 0 \<and> n \<noteq> NaN \<and>
            jsLess (jsAbs (jsMinus n (targetTimeOf env dateStr))) (Finite MAX_VALUE)
        | Some (DateString s) \<Rightarrow>
            s \<noteq> [] \<and>
            jsLess (jsAbs (jsMinus (timeNumber (parseDate env s)) (targetTimeOf env dateStr)))
              (Finite MAX_VALUE)))
   \<and> ((\<exists>b \<in> set builds. selectable env (targetTimeOf env dateStr) b) \<longrightarrow>
       (\<exists>i. firstMinimum env (targetTimeOf env dateStr) builds i \<and>
          (\<forall>t. isoTime env (date (builds ! i)) = Some t \<longrightarrow>
             resolveDateToBuild env dateStr builds st =
               (Inr (commit (builds ! i)),
                addLog (ResolvedDate dateStr (versionOrCommit (builds ! i)) t) st))))
   \<and> ((\<forall>b \<in> set builds. \<not> selectable env (targetTimeOf env dateStr) b) \<longrightarrow>
       resolveDateToBuild env dateStr builds st = (Inl (CouldNotResolveDate dateStr), st))
   \<and> ((\<forall>b \<in> set builds. date b = None) \<longrightarrow>
       resolveDateToBuild env dateStr builds st = (Inl (CouldNotResolveDate dateStr), st))"
proof -
  have parsed: "\<exists>day month year.
         map Number (splitOn CHR ''-'' dateStr) = [Some day, Some month, Some year] \<and>
         targetTimeOf env dateStr = Finite (of_int (localDate env year (month - 1) day))"
    if "dateRegex_test dateStr"
    using that
    by (auto simp: dateRegex_test_def targetTimeOf_def element_def Number_def Let_def
        split: list.splits)
  have undated: "resolveDateToBuild env dateStr builds st = (Inl (CouldNotResolveDate dateStr), st)"
    if "\<forall>b \<in> set builds. date b = None"
    using that by (intro resolveDateToBuild_none) (simp add: selectable_cases)
  have some: "\<exists>i. firstMinimum env (targetTimeOf env dateStr) builds i \<and>
          (\<forall>t. isoTime env (date (builds ! i)) = Some t \<longrightarrow>
             resolveDateToBuild env dateStr builds st =
               (Inr (commit (builds ! i)),
                addLog (ResolvedDate dateStr (versionOrCommit (builds ! i)) t) st))"
    if "\<exists>b \<in> set builds. selectable env (targetTimeOf env dateStr) b"
    using resolveDateToBuild_some [OF that, of st] by auto
  from parsed undated some resolveDateToBuild_none [of builds env dateStr st]
    selectable_cases [of env "targetTimeOf env dateStr" build]
  show ?thesis by blast
qed


theorem resolveDateToBuild_nearest_witness:
  "dateRegex_test ''15-03-2023''
   \<and> targetTimeOf exampleEnv ''15-03-2023'' = Finite 1678838400000
   \<and> (\<exists>b \<in> set exampleBuilds. selectable exampleEnv (targetTimeOf exampleEnv ''15-03-2023'') b)
   \<and> firstMinimum exampleEnv (targetTimeOf exampleEnv ''15-03-2023'') exampleBuilds 3
   \<and> isoTime exampleEnv (date (exampleBuilds ! 3)) = Some 1678752000000
   \<and> resolveDateToBuild exampleEnv ''15-03-2023'' exampleBuilds emptyState =
       (Inr ''c1'', addLog (ResolvedDate ''15-03-2023'' ''1.76.1'' 1678752000000) emptyState)
   \<and> resolveDateToBuild exampleEnv ''15-03-2023'' [exampleBuilds ! 1] emptyState =
       (Inl (CouldNotResolveDate ''15-03-2023''), emptyState)"
proof -
  note inst = resolveDateToBuild_nearest [of "''15-03-2023''" exampleEnv _ _ emptyState]
  have undated: "\<forall>b \<in> set [exampleBuilds ! 1]. date b = None"
    by (simp add: exampleBuilds_dates)
  from inst [of _ "[exampleBuilds ! 1]"] undated
  have none: "resolveDateToBuild exampleEnv ''15-03-2023'' [exampleBuilds ! 1] emptyState =
       (Inl (CouldNotResolveDate ''15-03-2023''), emptyState)"
    by blast
  have re: "dateRegex_test ''15-03-2023''"
    by (simp add: dateRegex_test_def isDigit_def)
  have fm: "firstMinimum exampleEnv (targetTimeOf exampleEnv ''15-03-2023'') exampleBuilds 3"
    unfolding targetTime_example by (rule exampleBuilds_firstMinimum)
  then have sel: "selectable exampleEnv (targetTimeOf exampleEnv ''15-03-2023'') (exampleBuilds ! 3)"
    by (simp add: firstMinimum_def)
  have mem: "exampleBuilds ! 3 \<in> set exampleBuilds"
    by (rule nth_mem) (simp add: exampleBuilds_length)
  from sel mem
  have ex: "\<exists>b \<in> set exampleBuilds. selectable exampleEnv (targetTimeOf exampleEnv ''15-03-2023'') b"
    by blast
  have iso: "isoTime exampleEnv (date (exampleBuilds ! 3)) = Some 1678752000000"
    by (simp add: exampleBuilds_dates isoTime_def maxTimeValue_def)
  from inst [of _ exampleBuilds] ex
  obtain i where i: "firstMinimum exampleEnv (targetTimeOf exampleEnv ''15-03-2023'') exampleBuilds i"
    and r: "\<forall>t. isoTime exampleEnv (date (exampleBuilds ! i)) = Some t \<longrightarrow>
             resolveDateToBuild exampleEnv ''15-03-2023'' exampleBuilds emptyState =
               (Inr (commit (exampleBuilds ! i)),
                addLog (ResolvedDate ''15-03-2023'' (versionOrCommit (exampleBuilds ! i)) t)
                  emptyState)"
    by blast
  from firstMinimum_unique [OF i fm] have "i = 3" .
  with r iso have "resolveDateToBuild exampleEnv ''15-03-2023'' exampleBuilds emptyState =
       (Inr (commit (exampleBuilds ! 3)),
        addLog (ResolvedDate ''15-03-2023'' (versionOrCommit (exampleBuilds ! 3)) 1678752000000)
          emptyState)"
    by blast
  moreover have "commit (exampleBuilds ! 3) = ''c1''" "versionOrCommit (exampleBuilds ! 3) = ''1.76.1''"
    by (simp_all add: exampleBuilds_def exampleHistory_def historyBuild_def versionOrCommit_def)
  ultimately have "resolveDateToBuild exampleEnv ''15-03-2023'' exampleBuilds emptyState =
       (Inr ''c1'', addLog (ResolvedDate ''15-03-2023'' ''1.76.1'' 1678752000000) emptyState)"
    by simp
  with re targetTime_example ex fm iso none show ?thesis by (intro conjI)
qed

text \<open>
  C4 as stated fails for builds that have a date and that the loop skips: a build dated
  at the epoch (the number \<open>0\<close> is falsy), a date string that does not parse, an
  infinite date, and the date \<open>Number.MAX_VALUE\<close>, whose distance is rounded to
  \<open>Number.MAX_VALUE\<close>.
\<close>

theorem resolveDateToBuild_unselectable_counterexample:
  "date (commitBuild DesktopLocal Stable Default ''c0''\<lparr>date := Some (DateNumber (Finite 0))\<rparr>)
     \<noteq> None
   \<and> resolveDateToBuild exampleEnv ''01-01-1970''
        [commitBuild DesktopLocal Stable Default ''c0''\<lparr>date := Some (DateNumber (Finite 0))\<rparr>]
        emptyState
       = (Inl (CouldNotResolveDate ''01-01-1970''), emptyState)
   \<and> resolveDateToBuild exampleEnv ''15-03-2023''
        [commitBuild DesktopLocal Stable Default ''c0''\<lparr>date := Some (DateString ''soon'')\<rparr>]
        emptyState
       = (Inl (CouldNotResolveDate ''15-03-2023''), emptyState)
   \<and> resolveDateToBuild exampleEnv ''15-03-2023''
        [commitBuild DesktopLocal Stable Default ''c0''\<lparr>date := Some (DateNumber PosInfinity)\<rparr>]
        emptyState
       = (Inl (CouldNotResolveDate ''15-03-2023''), emptyState)
   \<and> resolveDateToBuild exampleEnv ''15-03-2023''
        [commitBuild DesktopLocal Stable Default ''c0''
           \<lparr>date := Some (DateNumber (Finite MAX_VALUE))\<rparr>]
        emptyState
       = (Inl (CouldNotResolveDate ''15-03-2023''), emptyState)"
proof -
  let ?b = "commitBuild DesktopLocal Stable Default ''c0''"
  have a: "\<not> selectable exampleEnv target (?b\<lparr>date := Some (DateNumber (Finite 0))\<rparr>)" for target
    by (simp add: selectable_cases commitBuild_def)
  have b: "\<not> selectable exampleEnv target (?b\<lparr>date := Some (DateString ''soon'')\<rparr>)" for target
    by (simp add: selectable_cases commitBuild_def exampleEnv_def timeNumber_def)
  have c: "\<not> selectable exampleEnv (Finite 1678838400000)
      (?b\<lparr>date := Some (DateNumber PosInfinity)\<rparr>)"
    by (simp add: selectable_cases commitBuild_def)
  have d: "\<not> selectable exampleEnv (Finite 1678838400000)
      (?b\<lparr>date := Some (DateNumber (Finite MAX_VALUE))\<rparr>)"
    using abs_ge_self [of MAX_VALUE]
    by (simp add: selectable_cases commitBuild_def doubleOf_below_MAX_VALUE not_less)
  have "date (?b\<lparr>date := Some (DateNumber (Finite 0))\<rparr>) \<noteq> None"
    by simp
  moreover have "resolveDateToBuild exampleEnv ''01-01-1970''
      [?b\<lparr>date := Some (DateNumber (Finite 0))\<rparr>] emptyState
       = (Inl (CouldNotResolveDate ''01-01-1970''), emptyState)"
    by (rule resolveDateToBuild_none) (simp add: a)
  moreover have "resolveDateToBuild exampleEnv ''15-03-2023''
      [?b\<lparr>date := Some (DateString ''soon'')\<rparr>] emptyState
       = (Inl (CouldNotResolveDate ''15-03-2023''), emptyState)"
    by (rule resolveDateToBuild_none) (simp add: b)
  moreover have "resolveDateToBuild exampleEnv ''15-03-2023''
      [?b\<lparr>date := Some (DateNumber PosInfinity)\<rparr>] emptyState
       = (Inl (CouldNotResolveDate ''15-03-2023''), emptyState)"
    by (rule resolveDateToBuild_none) (simp add: c targetTime_example)
  moreover have "resolveDateToBuild exampleEnv ''15-03-2023''
      [?b\<lparr>date := Some (DateNumber (Finite MAX_VALUE))\<rparr>] emptyState
       = (Inl (CouldNotResolveDate ''15-03-2023''), emptyState)"
    by (rule resolveDateToBuild_none) (simp add: d targetTime_example)
  ultimately show ?thesis by (intro conjI)
qed

subsection \<open>The cache\<close>

lemma fetchBuildMeta_effect:
  assumes "fetchBuildMeta env runtime' commit' quality' flavor' buildPlatform buildArch st = (r, st')"
  shows "\<exists>calls. st' = st\<lparr>net := net st @ calls\<rparr> \<and> metadataQueries calls \<and>
           calls \<noteq> [] \<and> length calls \<le> 2"
proof -
  let ?u1 = "JsonGet (metadataUrl env runtime' commit' quality' flavor' buildPlatform buildArch)"
  let ?u2 = "JsonGet (metadataUrl env runtime' commit' quality' flavor' (Some MacOSX64) (Some X64))"
  from assms have "st' = st\<lparr>net := net st @ [?u1]\<rparr> \<or> st' = st\<lparr>net := net st @ [?u1, ?u2]\<rparr>"
    by (auto simp: fetchBuildMeta_def jsonGetMetadata_def split: sum.splits if_splits)
  then show ?thesis
  proof
    assume "st' = st\<lparr>net := net st @ [?u1]\<rparr>"
    then show ?thesis
      by (intro exI [of _ "[?u1]"]) (simp add: metadataQueries_def)
  next
    assume "st' = st\<lparr>net := net st @ [?u1, ?u2]\<rparr>"
    then show ?thesis
      by (intro exI [of _ "[?u1, ?u2]"]) (simp add: metadataQueries_def)
  qed
qed

lemma getBuildDownloadName_effect:
  assumes "getBuildDownloadName env runtime' commit' quality' flavor' buildPlatform buildArch st
           = (r, st')"
  shows "\<exists>calls. st' = st\<lparr>net := net st @ calls\<rparr> \<and> metadataQueries calls \<and>
           length calls \<le> 2 \<and>
           (calls = [] \<longleftrightarrow>
              \<not> nameNeedsMeta runtime' flavor' (effectivePlatform env buildPlatform))"
proof (cases "nameNeedsMeta runtime' flavor' (effectivePlatform env buildPlatform)")
  case False
  with assms have "st' = st"
    by (auto simp: getBuildDownloadName_def nameNeedsMeta_def Let_def
        split: Platform.splits if_splits)
  with False show ?thesis
    by (intro exI [of _ "[]"]) (simp add: metadataQueries_def)
next
  case True
  obtain r0 st0 where
    m: "fetchBuildMeta env runtime' commit' quality' flavor' buildPlatform buildArch st = (r0, st0)"
    by (cases "fetchBuildMeta env runtime' commit' quality' flavor' buildPlatform buildArch st")
  with assms True have "st' = st0"
    by (auto simp: getBuildDownloadName_def nameNeedsMeta_def Let_def
        split: sum.splits option.splits if_splits)
  with fetchBuildMeta_effect [OF m] True show ?thesis by auto
qed

lemma exists_writeFile: "exists p (st\<lparr>files := writeFile p content fs\<rparr>)"
  by (simp add: exists_def writeFile_def beneath_def)

lemma map_of_writeFile: "map_of (writeFile p content fs) p = Some content"
  by (simp add: writeFile_def)

lemma stableBuild_fields:
  "runtime stableBuild = DesktopLocal" "quality stableBuild = Stable"
  "flavor stableBuild = Default" "commit stableBuild = ''abc''"
  by (simp_all add: stableBuild_def commitBuild_def)

lemma onlineEnv_metadata:
  "fetchBuildMeta onlineEnv DesktopLocal ''abc'' Stable Default None None st =
     (Inr linuxMeta,
      st\<lparr>net := net st @
        [JsonGet ''https://update.code.visualstudio.com/api/versions/commit:abc/linux-x64/stable'']\<rparr>)"
  by (simp add: fetchBuildMeta_def jsonGetMetadata_def metadataUrl_def getPlatformName_def
      linuxPlatformName_def effectivePlatform_def effectiveArch_def onlineEnv_def exampleEnv_def)

lemma onlineEnv_name:
  "getBuildDownloadName onlineEnv DesktopLocal ''abc'' Stable Default None None st =
     (Inr ''code-stable-x64-1700000000.tar.gz'',
      st\<lparr>net := net st @
        [JsonGet ''https://update.code.visualstudio.com/api/versions/commit:abc/linux-x64/stable'']\<rparr>)"
proof -
  have host: "effectivePlatform onlineEnv None = LinuxX64"
    by (simp add: effectivePlatform_def onlineEnv_def exampleEnv_def)
  have name: "last (splitOn CHR ''/'' (url linuxMeta)) = ''code-stable-x64-1700000000.tar.gz''"
    by (simp add: linuxMeta_def)
  show ?thesis
    by (simp add: getBuildDownloadName_def host onlineEnv_metadata name Let_def)
qed

lemma onlineEnv_path:
  "join (getBuildPath onlineEnv ''abc'' Stable Default) ''code-stable-x64-1700000000.tar.gz''
     = ''/builds/abc/code-stable-x64-1700000000.tar.gz''"
  by (simp add: join_def onlineEnv_def exampleEnv_def)

lemma onlineEnv_flavor: "\<not> isDockerCliFlavor onlineEnv Default"
  by (simp add: onlineEnv_def exampleEnv_def)

text \<open>
  C2 (as amended). For every build of the primary channel (the quality is not the
  alternate channel and the flavor is no docker CLI flavor), when the download name is
  computed, the cache path exists and \<open>forceReDownload\<close> is unset,
  \<open>downloadAndExtractBuild\<close> returns the cached path, downloads no file and changes
  nothing on disk. It makes no network call at all when the name needs no metadata (a
  web runtime, the CLI flavor or a macOS host); for a desktop build of another flavor on
  Linux or Windows the computation of the name makes one or two metadata queries, and
  these are the only network calls.
\<close>

theorem downloadAndExtractBuild_cache_hit:
  assumes "quality build \<noteq> VSCodiumInsider"
    and "\<not> isDockerCliFlavor env (flavor build)"
    and "getBuildDownloadName env (runtime build) (commit build) (quality build) (flavor build)
           None None st = (Inr buildName, st1)"
    and "exists (join (getBuildPath env (commit build) (quality build) (flavor build)) buildName) st"
    and "\<not> forceReDownload options"
  shows "downloadAndExtractBuild env build options st =
           (Inr (Some (join (getBuildPath env (commit build) (quality build) (flavor build))
                        buildName)),
            addLog (UsingCachedBuild
                      (join (getBuildPath env (commit build) (quality build) (flavor build))
                         buildName)) st1)
         \<and> (\<exists>calls. st1 = st\<lparr>net := net st @ calls\<rparr> \<and> metadataQueries calls \<and>
               length calls \<le> 2 \<and>
               (calls = [] \<longleftrightarrow>
                  \<not> nameNeedsMeta (runtime build) (flavor build) (hostPlatform env)))"
proof -
  from getBuildDownloadName_effect [OF assms(3)]
  obtain calls where calls: "st1 = st\<lparr>net := net st @ calls\<rparr>" "metadataQueries calls"
    "length calls \<le> 2"
    "calls = [] \<longleftrightarrow> \<not> nameNeedsMeta (runtime build) (flavor build) (hostPlatform env)"
    by (auto simp: effectivePlatform_def)
  from calls(1) assms(4)
  have "exists (join (getBuildPath env (commit build) (quality build) (flavor build)) buildName) st1"
    by (simp add: exists_def)
  with assms have "downloadAndExtractBuild env build options st =
           (Inr (Some (join (getBuildPath env (commit build) (quality build) (flavor build))
                        buildName)),
            addLog (UsingCachedBuild
                      (join (getBuildPath env (commit build) (quality build) (flavor build))
                         buildName)) st1)"
    by (simp add: downloadAndExtractBuild_def Let_def)
  with calls show ?thesis by blast
qed

theorem downloadAndExtractBuild_cache_hit_witness:
  "exists ''/builds/abc/VSCode-darwin-arm64.zip''
     (emptyState\<lparr>files := [(''/builds/abc/VSCode-darwin-arm64.zip'', ''payload'')]\<rparr>)
   \<and> downloadAndExtractBuild (exampleEnv\<lparr>hostPlatform := MacOSArm, hostArch := Arm64\<rparr>)
       stableBuild None
       (emptyState\<lparr>files := [(''/builds/abc/VSCode-darwin-arm64.zip'', ''payload'')]\<rparr>) =
     (Inr (Some ''/builds/abc/VSCode-darwin-arm64.zip''),
      addLog (UsingCachedBuild ''/builds/abc/VSCode-darwin-arm64.zip'')
        (emptyState\<lparr>files := [(''/builds/abc/VSCode-darwin-arm64.zip'', ''payload'')]\<rparr>))"
proof -
  let ?env = "exampleEnv\<lparr>hostPlatform := MacOSArm, hostArch := Arm64\<rparr>"
  let ?st = "emptyState\<lparr>files := [(''/builds/abc/VSCode-darwin-arm64.zip'', ''payload'')]\<rparr>"
  have q: "quality stableBuild \<noteq> VSCodiumInsider"
    by (simp add: stableBuild_fields)
  have d: "\<not> isDockerCliFlavor ?env (flavor stableBuild)"
    by (simp add: stableBuild_fields exampleEnv_def)
  have n: "getBuildDownloadName ?env (runtime stableBuild) (commit stableBuild)
      (quality stableBuild) (flavor stableBuild) None None ?st
      = (Inr ''VSCode-darwin-arm64.zip'', ?st)"
    by (simp add: stableBuild_fields getBuildDownloadName_def effectivePlatform_def
        effectiveArch_def exampleEnv_def)
  have p: "join (getBuildPath ?env (commit stableBuild) (quality stableBuild) (flavor stableBuild))
      ''VSCode-darwin-arm64.zip'' = ''/builds/abc/VSCode-darwin-arm64.zip''"
    by (simp add: stableBuild_fields join_def exampleEnv_def)
  have e: "exists ''/builds/abc/VSCode-darwin-arm64.zip'' ?st"
    by (simp add: exists_def beneath_def)
  have f: "\<not> forceReDownload None"
    by (simp add: forceReDownload_def)
  from downloadAndExtractBuild_cache_hit [OF q d n _ f, unfolded p, OF e] e
  show ?thesis by simp
qed

text \<open>
  C2 as stated fails on a Linux host: the name of a desktop build is the last segment of
  the URL in the build's metadata, so a metadata query goes out before the cache is
  looked at.
\<close>

theorem downloadAndExtractBuild_metadata_query_counterexample:
  "exists ''/builds/abc/code-stable-x64-1700000000.tar.gz'' cachedState
   \<and> net cachedState = []
   \<and> downloadAndExtractBuild onlineEnv stableBuild None cachedState =
     (Inr (Some ''/builds/abc/code-stable-x64-1700000000.tar.gz''),
      cachedState\<lparr>
        net := [JsonGet
          ''https://update.code.visualstudio.com/api/versions/commit:abc/linux-x64/stable''],
        logged := [UsingCachedBuild ''/builds/abc/code-stable-x64-1700000000.tar.gz'']\<rparr>)"
proof -
  have e: "exists ''/builds/abc/code-stable-x64-1700000000.tar.gz'' st"
    if "files st = files cachedState" for st
    using that by (simp add: exists_def beneath_def cachedState_def emptyState_def)
  have "downloadAndExtractBuild onlineEnv stableBuild None cachedState =
     (Inr (Some ''/builds/abc/code-stable-x64-1700000000.tar.gz''),
      cachedState\<lparr>
        net := [JsonGet
          ''https://update.code.visualstudio.com/api/versions/commit:abc/linux-x64/stable''],
        logged := [UsingCachedBuild ''/builds/abc/code-stable-x64-1700000000.tar.gz'']\<rparr>)"
    by (simp add: downloadAndExtractBuild_def stableBuild_fields onlineEnv_flavor onlineEnv_name
        onlineEnv_path e forceReDownload_def addLog_def Let_def cachedState_def emptyState_def)
  with e [of cachedState] show ?thesis
    by (simp add: cachedState_def emptyState_def)
qed

subsection \<open>The checksum\<close>

text \<open>
  C7. For every build of the primary channel that is downloaded (the cache path does not
  exist, or the download is forced), when the metadata is fetched, the download succeeds
  and the SHA-256 checksum of the downloaded file differs from the \<open>sha256hash\<close> of the
  metadata, \<open>downloadAndExtractBuild\<close> fails with the error that carries the expected
  and the computed checksum, and the downloaded file is on disk at the cache path
  afterwards.
\<close>

theorem downloadAndExtractBuild_checksum_mismatch:
  assumes "quality build \<noteq> VSCodiumInsider"
    and "\<not> isDockerCliFlavor env (flavor build)"
    and "getBuildDownloadName env (runtime build) (commit build) (quality build) (flavor build)
           None None st = (Inr buildName, st1)"
    and "path = join (getBuildPath env (commit build) (quality build) (flavor build)) buildName"
    and "\<not> exists path st1 \<or> forceReDownload options"
    and "fetchBuildMeta env (runtime build) (commit build) (quality build) (flavor build) None None
           (if exists path st1 \<and> forceReDownload options
            then rmSync (getBuildPath env (commit build) (quality build) (flavor build))
                   (addLog (DeletingAndRetrying
                      (getBuildPath env (commit build) (quality build) (flavor build))) st1)
            else st1) = (Inr meta, st2)"
    and "downloadAt env (length (net st2)) (url meta) = Inr content"
    and "sha256 env content \<noteq> sha256hash meta"
  shows "downloadAndExtractBuild env build options st =
           (Inl (ChecksumMismatch (sha256hash meta) (sha256 env content)),
            st2\<lparr>logged := logged st2 @ [DownloadingBuild (url meta)],
                net := net st2 @ [FileGet (url meta) path],
                files := writeFile path content (files st2)\<rparr>)
         \<and> exists path
             (st2\<lparr>logged := logged st2 @ [DownloadingBuild (url meta)],
                  net := net st2 @ [FileGet (url meta) path],
                  files := writeFile path content (files st2)\<rparr>)
         \<and> map_of (files
             (st2\<lparr>logged := logged st2 @ [DownloadingBuild (url meta)],
                  net := net st2 @ [FileGet (url meta) path],
                  files := writeFile path content (files st2)\<rparr>)) path = Some content"
proof -
  let ?st' = "st2\<lparr>logged := logged st2 @ [DownloadingBuild (url meta)],
                net := net st2 @ [FileGet (url meta) path],
                files := writeFile path content (files st2)\<rparr>"
  have get: "fileGet env (url meta) path (addLog (DownloadingBuild (url meta)) st2) = (Inr (), ?st')"
    using assms(7) by (simp add: fileGet_def addLog_def)
  have sha: "computeSHA256 env path ?st' = Inr (sha256 env content)"
    by (simp add: computeSHA256_def map_of_writeFile)
  have dl: "downloadBuild env (runtime build) (commit build) (quality build) (flavor build) path
      (if exists path st1 \<and> forceReDownload options
            then rmSync (getBuildPath env (commit build) (quality build) (flavor build))
                   (addLog (DeletingAndRetrying
                      (getBuildPath env (commit build) (quality build) (flavor build))) st1)
            else st1) =
      (Inl (ChecksumMismatch (sha256hash meta) (sha256 env content)), ?st')"
    unfolding downloadBuild_def assms(6) using assms(8) by (simp add: get sha)
  have "downloadAndExtractBuild env build options st =
      (Inl (ChecksumMismatch (sha256hash meta) (sha256 env content)), ?st')"
    using assms(1,2,5) dl
    by (auto simp: downloadAndExtractBuild_def assms(3) Let_def assms(4) [symmetric])
  moreover have "exists path ?st'"
    using exists_writeFile [where p = path and content = content and fs = "files st2" and
        st = "st2\<lparr>logged := logged st2 @ [DownloadingBuild (url meta)],
                net := net st2 @ [FileGet (url meta) path]\<rparr>"]
    by simp
  ultimately show ?thesis by (simp add: map_of_writeFile)
qed

theorem downloadAndExtractBuild_checksum_mismatch_witness:
  "downloadAndExtractBuild onlineEnv stableBuild None emptyState =
     (Inl (ChecksumMismatch ''sha:payload'' ''sha:corrupted''),
      emptyState\<lparr>
        logged := [DownloadingBuild
          ''https://cdn.example.org/stable/abc/code-stable-x64-1700000000.tar.gz''],
        net := [JsonGet
            ''https://update.code.visualstudio.com/api/versions/commit:abc/linux-x64/stable'',
          JsonGet
            ''https://update.code.visualstudio.com/api/versions/commit:abc/linux-x64/stable'',
          FileGet ''https://cdn.example.org/stable/abc/code-stable-x64-1700000000.tar.gz''
            ''/builds/abc/code-stable-x64-1700000000.tar.gz''],
        files := [(''/builds/abc/code-stable-x64-1700000000.tar.gz'', ''corrupted'')]\<rparr>)
   \<and> exists ''/builds/abc/code-stable-x64-1700000000.tar.gz''
       (emptyState\<lparr>files :=
          [(''/builds/abc/code-stable-x64-1700000000.tar.gz'', ''corrupted'')]\<rparr>)"
proof -
  let ?u = "JsonGet ''https://update.code.visualstudio.com/api/versions/commit:abc/linux-x64/stable''"
  let ?path = "''/builds/abc/code-stable-x64-1700000000.tar.gz''"
  have q: "quality stableBuild \<noteq> VSCodiumInsider"
    by (simp add: stableBuild_fields)
  have d: "\<not> isDockerCliFlavor onlineEnv (flavor stableBuild)"
    by (simp add: stableBuild_fields onlineEnv_flavor)
  have n: "getBuildDownloadName onlineEnv (runtime stableBuild) (commit stableBuild)
      (quality stableBuild) (flavor stableBuild) None None emptyState
      = (Inr ''code-stable-x64-1700000000.tar.gz'', emptyState\<lparr>net := [?u]\<rparr>)"
    by (simp add: stableBuild_fields onlineEnv_name emptyState_def)
  have p: "?path = join (getBuildPath onlineEnv (commit stableBuild) (quality stableBuild)
      (flavor stableBuild)) ''code-stable-x64-1700000000.tar.gz''"
    by (simp add: stableBuild_fields onlineEnv_path)
  have e: "\<not> exists ?path (emptyState\<lparr>net := [?u]\<rparr>)"
    by (simp add: exists_def emptyState_def)
  then have e': "\<not> exists ?path (emptyState\<lparr>net := [?u]\<rparr>) \<or> forceReDownload None" ..
  have m: "fetchBuildMeta onlineEnv (runtime stableBuild) (commit stableBuild)
      (quality stableBuild) (flavor stableBuild) None None
      (if exists ?path (emptyState\<lparr>net := [?u]\<rparr>) \<and> forceReDownload None
       then rmSync (getBuildPath onlineEnv (commit stableBuild) (quality stableBuild)
                      (flavor stableBuild))
              (addLog (DeletingAndRetrying
                 (getBuildPath onlineEnv (commit stableBuild) (quality stableBuild)
                    (flavor stableBuild))) (emptyState\<lparr>net := [?u]\<rparr>))
       else emptyState\<lparr>net := [?u]\<rparr>) = (Inr linuxMeta, emptyState\<lparr>net := [?u, ?u]\<rparr>)"
    using e by (simp add: stableBuild_fields onlineEnv_metadata emptyState_def)
  have g: "downloadAt onlineEnv (length (net (emptyState\<lparr>net := [?u, ?u]\<rparr>))) (url linuxMeta)
      = Inr ''corrupted''"
    by (simp add: onlineEnv_def)
  have h: "sha256 onlineEnv ''corrupted'' \<noteq> sha256hash linuxMeta"
    by (simp add: onlineEnv_def exampleEnv_def linuxMeta_def)
  have s1: "sha256 onlineEnv ''corrupted'' = ''sha:corrupted''"
    by (simp add: onlineEnv_def exampleEnv_def)
  have s2: "sha256hash linuxMeta = ''sha:payload''"
    and s3: "url linuxMeta = ''https://cdn.example.org/stable/abc/code-stable-x64-1700000000.tar.gz''"
    by (simp_all add: linuxMeta_def)
  from downloadAndExtractBuild_checksum_mismatch [OF q d n p e' m g h, unfolded s1 s2 s3]
  show ?thesis
    by (simp add: emptyState_def writeFile_def exists_def beneath_def)
qed


end
